theory Spec2Isabelle
  imports Main "HOL-Library.List_Lexorder" "HOL-Library.Char_ord" "HOL-Library.Word"
begin

unbundle bit_operations_syntax

section \<open>The driver of the klog-to-logr fixer (main.go)\<close>

text \<open>
  The program is a command-line driver: it resolves each path argument to a package,
  hands the package to the fix engine and, for every fixed file, either prints a unified
  diff or rewrites the file.  Everything it does is an effect on the outside world, so
  the model threads an explicit world through every function: the disk, the two output
  streams and the log.  Go's \<^verbatim>\<open>[]byte\<close> and \<^verbatim>\<open>string\<close> are both
  \<^typ>\<open>string\<close> (a list of bytes); a Go \<^verbatim>\<open>error\<close> is its message, and
  \<^verbatim>\<open>nil\<close> is \<^term>\<open>None\<close>.
\<close>

subsection \<open>The world\<close>

type_synonym bytes = string
type_synonym err = string

text \<open>A file on disk: its permission bits (an \<^verbatim>\<open>os.FileMode\<close>, 32 bits) and its bytes.\<close>

record osfile =
  mode :: "32 word"
  content :: bytes

type_synonym disk = "string \<rightharpoonup> osfile"

datatype log_entry =
  LogError err string "(string \<times> string) list"
| LogInfo nat string "(string \<times> string) list"

text \<open>
  \<open>clock\<close> counts the calls made to the operating system so far.  The answers of the
  operating system (\<open>opsys\<close> below) may depend on the whole world, the clock included,
  so the same call can succeed at one moment and fail at the next.  \<open>logged\<close> is the
  list of the entries handed to the logger so far, in order; what the logger does with an
  entry is a matter of the logging packages (\<open>LogSink\<close> below).  \<open>mem\<close> is the memory
  of the packages \<^verbatim>\<open>importer\<close> and \<^verbatim>\<open>fixer\<close> (the loader, its file set, its
  packages), which this file never looks into.
\<close>

record 'x world =
  files :: disk
  stdout :: string
  stderr :: string
  logged :: "log_entry list"
  clock :: nat
  mem :: 'x

definition tick :: "'x world \<Rightarrow> 'x world" where
  "tick w = w\<lparr>clock := Suc (clock w)\<rparr>"

text \<open>
  What the operating system answers to each call whose failure the source looks at.
  \<^item> \<open>os_temp w dir prefix\<close>: \<^verbatim>\<open>ioutil.TempFile\<close> fails with an error, or picks a name;
  \<^item> \<open>os_write w name data\<close>: how many bytes of \<open>data\<close> the write takes, and the
    error it reports when that is not all of them;
  \<^item> \<open>os_close\<close>, \<open>os_open\<close>, \<open>os_readall\<close>, \<open>os_create\<close>: the error of the call, if any;
  \<^item> \<open>os_exec w cmd args\<close>: the combined output of the command and the error of running it
    (a non-zero exit status or a failure to start);
  \<^item> \<open>os_getwd\<close>: the working directory or an error;
  \<^item> \<open>os_umask\<close>: the permission bits the process's umask takes away from a new file.
\<close>

record 'x opsys =
  os_temp :: "'x world \<Rightarrow> string \<Rightarrow> string \<Rightarrow> err + string"
  os_write :: "'x world \<Rightarrow> string \<Rightarrow> bytes \<Rightarrow> nat \<times> err"
  os_close :: "'x world \<Rightarrow> string \<Rightarrow> err option"
  os_open :: "'x world \<Rightarrow> string \<Rightarrow> err option"
  os_readall :: "'x world \<Rightarrow> string \<Rightarrow> err option"
  os_create :: "'x world \<Rightarrow> string \<Rightarrow> err option"
  os_exec :: "'x world \<Rightarrow> string \<Rightarrow> string list \<Rightarrow> bytes \<times> err option"
  os_getwd :: "'x world \<Rightarrow> err + string"
  os_umask :: "32 word"

subsection \<open>Library calls on files\<close>

text \<open>
  \<^verbatim>\<open>ioutil.TempFile(dir, prefix)\<close> opens a new file with
  \<^verbatim>\<open>O_RDWR|O_CREATE|O_EXCL\<close> and permission 0600 (384): it never opens a path that
  exists already, and there is no file with the empty name.  The new file is empty.
\<close>

definition TempFile :: "'x opsys \<Rightarrow> string \<Rightarrow> string \<Rightarrow> 'x world \<Rightarrow> (err + string) \<times> 'x world" where
  "TempFile os dir prefix w =
     (case os_temp os w dir prefix of
        Inl e \<Rightarrow> (Inl e, tick w)
      | Inr name \<Rightarrow>
          if name = [] then (Inl ''open : no such file or directory'', tick w)
          else if files w name \<noteq> None then (Inl (''open '' @ name @ '': file exists''), tick w)
          else (Inr name, tick (w\<lparr>files := (files w)(name \<mapsto> \<lparr>mode = 384 AND NOT (os_umask os), content = []\<rparr>)\<rparr>)))"

text \<open>
  \<^verbatim>\<open>file.Write(data)\<close> on the handle of the file at \<open>name\<close>: the bytes the operating
  system takes are appended; the call reports an error exactly when it took fewer than
  \<open>length data\<close> bytes.
\<close>

definition file_Write :: "'x opsys \<Rightarrow> string \<Rightarrow> bytes \<Rightarrow> 'x world \<Rightarrow> err option \<times> 'x world" where
  "file_Write os name data w =
     (let (k, e) = os_write os w name data;
          written = take k data;
          fs = (case files w name of
                  None \<Rightarrow> files w
                | Some f \<Rightarrow> (files w)(name \<mapsto> f\<lparr>content := content f @ written\<rparr>))
      in (if length written < length data then Some e else None, tick (w\<lparr>files := fs\<rparr>)))"

definition file_Close :: "'x opsys \<Rightarrow> string \<Rightarrow> 'x world \<Rightarrow> err option \<times> 'x world" where
  "file_Close os name w = (os_close os w name, tick w)"

text \<open>
  \<^verbatim>\<open>os.Remove(name)\<close> unlinks the path.  The source discards its result at every call,
  so the model has no failing branch for it.
\<close>

definition os_Remove :: "string \<Rightarrow> 'x world \<Rightarrow> 'x world" where
  "os_Remove name w = tick (w\<lparr>files := (files w)(name := None)\<rparr>)"

text \<open>
  \<^verbatim>\<open>exec.Command(cmd, args...).CombinedOutput()\<close>: the command reads the disk and
  answers with its output and the error of the run.
\<close>

definition CombinedOutput :: "'x opsys \<Rightarrow> string \<Rightarrow> string list \<Rightarrow> 'x world \<Rightarrow> (bytes \<times> err option) \<times> 'x world" where
  "CombinedOutput os cmd args w = (os_exec os w cmd args, tick w)"

subsection \<open>writeTempFile and diff\<close>

text \<open>
  \<^verbatim>\<open>func writeTempFile(dir, prefix string, data []byte) (string, error)\<close>.
  The result is Go's pair: the name and the error.
\<close>

definition writeTempFile ::
  "'x opsys \<Rightarrow> string \<Rightarrow> string \<Rightarrow> bytes \<Rightarrow> 'x world \<Rightarrow> (string \<times> err option) \<times> 'x world" where
  "writeTempFile os dir prefix data w =
     (case TempFile os dir prefix w of
        (Inl e, w1) \<Rightarrow> (([], Some e), w1)
      | (Inr name, w1) \<Rightarrow>
          (let (err, w2) = file_Write os name data w1;
               (err1, w3) = file_Close os name w2;
               err = (if err = None then err1 else err)
           in if err \<noteq> None then (([], err), os_Remove name w3)
              else ((name, None), w3)))"

text \<open>
  \<^verbatim>\<open>func diff(b1, b2 []byte) (data []byte, err error)\<close>.  The two deferred
  \<^verbatim>\<open>os.Remove\<close> calls run when the function returns, the later one first.
\<close>

definition diff :: "'x opsys \<Rightarrow> bytes \<Rightarrow> bytes \<Rightarrow> 'x world \<Rightarrow> (bytes \<times> err option) \<times> 'x world" where
  "diff os b1 b2 w =
     (case writeTempFile os [] ''kfix'' b1 w of
        ((f1, Some e), w1) \<Rightarrow> (([], Some e), w1)
      | ((f1, None), w1) \<Rightarrow>
          (case writeTempFile os [] ''kfix'' b2 w1 of
             ((f2, Some e), w2) \<Rightarrow> (([], Some e), os_Remove f1 w2)
           | ((f2, None), w2) \<Rightarrow>
               (let ((data, err), w3) = CombinedOutput os ''diff'' [''-u'', f1, f2] w2;
                    err = (if length data > 0 then None else err)
                in ((data, err), os_Remove f1 (os_Remove f2 w3)))))"

subsection \<open>Reading and writing a source file\<close>

text \<open>
  \<^verbatim>\<open>func readFile(filename string) ([]byte, error)\<close>: open, read all, and the deferred
  close.  A path that is not on the disk cannot be opened.
\<close>

definition readFile :: "'x opsys \<Rightarrow> string \<Rightarrow> 'x world \<Rightarrow> (err + bytes) \<times> 'x world" where
  "readFile os filename w =
     (case files w filename of
        None \<Rightarrow> (Inl (''open '' @ filename @ '': no such file or directory''), tick w)
      | Some f \<Rightarrow>
          (case os_open os w filename of
             Some e \<Rightarrow> (Inl e, tick w)
           | None \<Rightarrow>
               (let w1 = tick w in
                case os_readall os w1 filename of
                  Some e \<Rightarrow> (Inl e, tick (tick w1))
                | None \<Rightarrow> (Inr (content f), tick (tick w1)))))"

text \<open>
  \<^verbatim>\<open>ioutil.WriteFile(filename, data, perm)\<close> opens with
  \<^verbatim>\<open>O_WRONLY|O_CREATE|O_TRUNC\<close>: a file that exists is emptied and keeps its mode;
  a file that does not exist is created with \<open>perm\<close> less the umask.  Then the data is
  written and the file closed.
\<close>

definition WriteFile :: "'x opsys \<Rightarrow> string \<Rightarrow> bytes \<Rightarrow> 32 word \<Rightarrow> 'x world \<Rightarrow> err option \<times> 'x world" where
  "WriteFile os filename data perm w =
     (case os_create os w filename of
        Some e \<Rightarrow> (Some e, tick w)
      | None \<Rightarrow>
          if filename = [] then (Some ''open : no such file or directory'', tick w)
          else
            (let f = (case files w filename of
                        None \<Rightarrow> \<lparr>mode = perm AND NOT (os_umask os), content = []\<rparr>
                      | Some old \<Rightarrow> old\<lparr>content := []\<rparr>);
                 w1 = tick (w\<lparr>files := (files w)(filename \<mapsto> f)\<rparr>);
                 (err, w2) = file_Write os filename data w1;
                 (err1, w3) = file_Close os filename w2
             in (if err = None then err1 else err, w3)))"

subsection \<open>filepath.Join\<close>

text \<open>
  \<^verbatim>\<open>filepath.Join\<close> on a system whose separator is the slash: the elements from the
  first non-empty one on are joined with slashes and the result is cleaned
  (\<^verbatim>\<open>filepath.Clean\<close>): empty elements and \<^verbatim>\<open>.\<close> go, \<^verbatim>\<open>..\<close> takes the
  element before it along (at the root it just goes, at the start of a relative path it
  stays), and the empty result is \<^verbatim>\<open>.\<close>.
\<close>

fun split_sep :: "string \<Rightarrow> string list" where
  "split_sep [] = [[]]"
| "split_sep (c # cs) =
     (if c = CHR ''/'' then [] # split_sep cs
      else (let r = split_sep cs in (c # hd r) # tl r))"

fun join_sep :: "string list \<Rightarrow> string" where
  "join_sep [] = []"
| "join_sep [x] = x"
| "join_sep (x # y # ys) = x @ ''/'' @ join_sep (y # ys)"

fun clean_elems :: "bool \<Rightarrow> string list \<Rightarrow> string list \<Rightarrow> string list" where
  "clean_elems rooted out [] = out"
| "clean_elems rooted out (e # es) =
     (if e = [] \<or> e = ''.'' then clean_elems rooted out es
      else if e = ''..'' then
        (if out \<noteq> [] \<and> last out \<noteq> ''..'' then clean_elems rooted (butlast out) es
         else if \<not> rooted then clean_elems rooted (out @ [''..'']) es
         else clean_elems rooted out es)
      else clean_elems rooted (out @ [e]) es)"

definition Clean :: "string \<Rightarrow> string" where
  "Clean path =
     (if path = [] then ''.''
      else (let rooted = (hd path = CHR ''/'');
                out = clean_elems rooted [] (split_sep path)
            in if rooted then ''/'' @ join_sep out
               else if out = [] then ''.'' else join_sep out))"

fun Join :: "string list \<Rightarrow> string" where
  "Join [] = []"
| "Join (e # es) = (if e \<noteq> [] then Clean (join_sep (e # es)) else Join es)"

subsection \<open>The fix handler\<close>

text \<open>
  \<^verbatim>\<open>fixer.FileInfo\<close> (its fields \<^verbatim>\<open>Name\<close> and \<^verbatim>\<open>AST\<close> are the ones used here) and
  \<^verbatim>\<open>diffFixHandler\<close>.  The syntax tree \<open>'a\<close> and the file set \<open>'s\<close> are values of
  packages that are not part of this file.
\<close>

record 'a FileInfo =
  Name :: string
  AST :: 'a

record 's diffFixHandler =
  fileSet :: 's
  doDiff :: bool

text \<open>Writes to the standard streams append to them; the source discards their errors.\<close>

definition Stdout_Write :: "string \<Rightarrow> 'x world \<Rightarrow> 'x world" where
  "Stdout_Write s w = w\<lparr>stdout := stdout w @ s\<rparr>"

definition Stderr_Write :: "string \<Rightarrow> 'x world \<Rightarrow> 'x world" where
  "Stderr_Write s w = w\<lparr>stderr := stderr w @ s\<rparr>"

text \<open>
  \<^verbatim>\<open>func (h *diffFixHandler) handleFix(info fixer.FileInfo) error\<close>.
  \<open>gofmt\<close> is \<^verbatim>\<open>fixer.GofmtFile\<close>, which renders a tree from the memory of its package.
\<close>

definition handleFix ::
  "'x opsys \<Rightarrow> ('x \<Rightarrow> 'a \<Rightarrow> 's \<Rightarrow> err + bytes) \<Rightarrow> 's diffFixHandler \<Rightarrow> 'a FileInfo \<Rightarrow>
     'x world \<Rightarrow> err option \<times> 'x world" where
  "handleFix os gofmt h info w =
     (case readFile os (FileInfo.Name info) w of
        (Inl e, w1) \<Rightarrow> (Some e, w1)
      | (Inr src, w1) \<Rightarrow>
          (case gofmt (mem w1) (AST info) (fileSet h) of
             Inl e \<Rightarrow> (Some e, w1)
           | Inr newSrc \<Rightarrow>
               if doDiff h then
                 (case diff os src newSrc w1 of
                    ((data, Some e), w2) \<Rightarrow> (Some (''computing diff: '' @ e), w2)
                  | ((data, None), w2) \<Rightarrow>
                      (None,
                       Stdout_Write data
                         (Stdout_Write
                            (''diff '' @ FileInfo.Name info @ '' '' @ Join [''fixed'', FileInfo.Name info] @ ''\<newline>'')
                            w2)))
               else WriteFile os (FileInfo.Name info) newSrc 0 w1))"

subsection \<open>The driver\<close>

text \<open>
  \<^verbatim>\<open>fixer.Fix\<close>: the driver reads the name and the description; the rest of a fix
  (\<open>'r\<close>) belongs to the engine.  \<^verbatim>\<open>fixer.Fixer\<close>: the list of fixes and the handler
  of a fixed file; its logger and its loader live in the memory of the world.
\<close>

record 'r Fix =
  Name :: string
  Description :: string
  Rewrite :: 'r

record ('x, 'a, 'r) Fixer =
  Fixes :: "'r Fix list"
  HandleFix :: "'a FileInfo \<Rightarrow> 'x world \<Rightarrow> err option \<times> 'x world"

text \<open>
  What \<^verbatim>\<open>main\<close> calls outside this file.  The packages \<^verbatim>\<open>importer\<close> and
  \<^verbatim>\<open>fixer\<close>:
  \<^item> \<open>NewImporter cwd w\<close>: the world with a new importer and loader in its memory;
  \<^item> \<open>FileSet m\<close>: the loader's file set;
  \<^item> \<open>Import arg w\<close>: resolves the argument: an error or none, and the world after
    the call;
  \<^item> \<open>PackageInfoFor m arg\<close>: the package of an imported argument, \<open>ImportPath\<close> its
    import path;
  \<^item> \<open>GofmtFile\<close>: the source text of a tree, or an error;
  \<^item> \<open>FixPackage fixer pkg w\<close>: the engine, which does to the world whatever it does
    (by its handler or not) and answers with an error or none.
  The importer and the engine are handed a logger, and the importer reads the disk, so
  \<open>NewImporter\<close>, \<open>Import\<close> and \<open>FixPackage\<close> may each change the world in any way.

  The logging packages \<^verbatim>\<open>glogr\<close> and \<^verbatim>\<open>glog\<close>:
  \<^item> \<open>LogSink entry w\<close>: the world after the logger has dealt with an entry.  What it
    does depends on the flags of \<^verbatim>\<open>glog\<close>; as the program sets none, \<^verbatim>\<open>glog\<close>
    writes to log files that it creates, with their symbolic links, in the temporary
    directory.  So the sink may change the disk and the streams in any way.

  And of the standard library, what \<^verbatim>\<open>flag.PrintDefaults\<close> prints,
  \<^verbatim>\<open>strings.TrimSpace\<close>, and the quoting of the verb \<^verbatim>\<open>%q\<close>.
\<close>

record ('x, 'a, 's, 'p, 'r) extern =
  NewImporter :: "string \<Rightarrow> 'x world \<Rightarrow> 'x world"
  FileSet :: "'x \<Rightarrow> 's"
  Import :: "string \<Rightarrow> 'x world \<Rightarrow> err option \<times> 'x world"
  PackageInfoFor :: "'x \<Rightarrow> string \<Rightarrow> 'p"
  ImportPath :: "'p \<Rightarrow> string"
  GofmtFile :: "'x \<Rightarrow> 'a \<Rightarrow> 's \<Rightarrow> err + bytes"
  FixPackage :: "('x, 'a, 'r) Fixer \<Rightarrow> 'p \<Rightarrow> 'x world \<Rightarrow> err option \<times> 'x world"
  LogSink :: "log_entry \<Rightarrow> 'x world \<Rightarrow> 'x world"
  PrintDefaults :: string
  TrimSpace :: "string \<Rightarrow> string"
  Quote :: "string \<Rightarrow> string"

text \<open>
  \<^verbatim>\<open>log.Error(err, msg, keysAndValues...)\<close> and \<^verbatim>\<open>log.V(v).Info(msg, ...)\<close>: the
  entry goes to the sink, which does to the world what it does, and is on record in
  \<open>logged\<close>.
\<close>

definition log_Error ::
  "('x, 'a, 's, 'p, 'r) extern \<Rightarrow> err \<Rightarrow> string \<Rightarrow> (string \<times> string) list \<Rightarrow>
     'x world \<Rightarrow> 'x world" where
  "log_Error ex e msg kvs w =
     (LogSink ex (LogError e msg kvs) w)\<lparr>logged := logged w @ [LogError e msg kvs]\<rparr>"

definition log_Info ::
  "('x, 'a, 's, 'p, 'r) extern \<Rightarrow> nat \<Rightarrow> string \<Rightarrow> (string \<times> string) list \<Rightarrow>
     'x world \<Rightarrow> 'x world" where
  "log_Info ex v msg kvs w =
     (LogSink ex (LogInfo v msg kvs) w)\<lparr>logged := logged w @ [LogInfo v msg kvs]\<rparr>"

text \<open>
  The state of the program: the package variable \<^verbatim>\<open>allFixes\<close> and the world.  A
  statement either goes on with a state (\<open>Inr\<close>) or ends the process by
  \<^verbatim>\<open>os.Exit(code)\<close> (\<open>Inl\<close>, the code and the state at that moment).
\<close>

type_synonym ('x, 'r) state = "'r Fix list \<times> 'x world"
type_synonym ('x, 'r) step = "(nat \<times> ('x, 'r) state) + ('x, 'r) state"

text \<open>\<^verbatim>\<open>strings.Replace(desc, "\n", "\n\t", -1)\<close>\<close>

definition indent_lines :: "string \<Rightarrow> string" where
  "indent_lines desc = concat (map (\<lambda>c. if c = CHR 0x0A then [CHR 0x0A, CHR 0x09] else [c]) desc)"

text \<open>
  \<^verbatim>\<open>func usage()\<close>.  \<^verbatim>\<open>sort.Sort(byName(allFixes))\<close> sorts the package variable
  itself, by \<^verbatim>\<open>Name\<close> in the order of Go's strings (bytewise); where two fixes have one
  name Go leaves their order open, and the model keeps it as it was.
\<close>

definition usage_entry :: "('x, 'a, 's, 'p, 'r) extern \<Rightarrow> 'r Fix \<Rightarrow> string" where
  "usage_entry ex f =
     ''\<newline>'' @ Fix.Name f @ ''\<newline>'' @
     [CHR 0x09] @ indent_lines (TrimSpace ex (Description f)) @ ''\<newline>''"

definition usage :: "('x, 'a, 's, 'p, 'r) extern \<Rightarrow> ('x, 'r) state \<Rightarrow> ('x, 'r) step" where
  "usage ex st =
     (let (allFixes, w) = st;
          w1 = Stderr_Write ''usage: kfix [-diff] [path ...]\<newline>'' w;
          w2 = Stderr_Write (PrintDefaults ex) w1;
          w3 = Stderr_Write ''\<newline>Available fixups are:\<newline>'' w2;
          allFixes1 = sort_key Fix.Name allFixes;
          w4 = fold (\<lambda>f. Stderr_Write (usage_entry ex f)) allFixes1 w3
      in Inl (93, (allFixes1, w4)))"

text \<open>All that \<open>usage\<close> prints, in one piece.\<close>

definition usage_text :: "('x, 'a, 's, 'p, 'r) extern \<Rightarrow> 'r Fix list \<Rightarrow> string" where
  "usage_text ex allFixes =
     ''usage: kfix [-diff] [path ...]\<newline>'' @ PrintDefaults ex @
     ''\<newline>Available fixups are:\<newline>'' @
     concat (map (usage_entry ex) (sort_key Fix.Name allFixes))"

text \<open>
  The command line as \<^verbatim>\<open>flag.Parse()\<close> leaves it: rejected (an unknown flag, a bad
  value, or a request for help), and then the package \<^verbatim>\<open>flag\<close> prints its message and
  calls \<^verbatim>\<open>flag.Usage\<close>, which \<^verbatim>\<open>main\<close> has set to \<^verbatim>\<open>usage\<close>; or parsed into
  the value of \<^verbatim>\<open>-diff\<close> and the path arguments.
\<close>

datatype cmdline = Rejected string | Parsed bool "string list"

text \<open>The \<^verbatim>\<open>for\<close> loop of \<^verbatim>\<open>main\<close> over the path arguments.\<close>

fun main_loop ::
  "('x, 'a, 's, 'p, 'r) extern \<Rightarrow> ('x, 'a, 'r) Fixer \<Rightarrow> string list \<Rightarrow> 'x world \<Rightarrow>
     (nat \<times> 'x world) + 'x world" where
  "main_loop ex fixer [] w = Inr w"
| "main_loop ex fixer (arg # rest) w =
     (case Import ex arg w of
        (Some e, w1) \<Rightarrow>
          Inl (1, log_Error ex e ''unable to import package from argument'' [(''path'', arg)] w1)
      | (None, w1) \<Rightarrow>
          (let pkg = PackageInfoFor ex (mem w1) arg;
               w2 = log_Info ex 1 ''fixing package'' [(''package'', ImportPath ex pkg)] w1
           in case FixPackage ex fixer pkg w2 of
                (Some e, w3) \<Rightarrow>
                  Inl (5, Stderr_Write
                            (''aborting package '' @ Quote ex arg @ '': '' @ e @ ''\<newline>'') w3)
              | (None, w3) \<Rightarrow> main_loop ex fixer rest w3))"

fun flag_Args :: "cmdline \<Rightarrow> string list" where
  "flag_Args (Parsed d args) = args"
| "flag_Args (Rejected msg) = []"

fun flag_doDiff :: "cmdline \<Rightarrow> bool" where
  "flag_doDiff (Parsed d args) = d"
| "flag_doDiff (Rejected msg) = False"

definition flag_Parse ::
  "('x, 'a, 's, 'p, 'r) extern \<Rightarrow> cmdline \<Rightarrow> ('x, 'r) state \<Rightarrow> ('x, 'r) step" where
  "flag_Parse ex cl st =
     (case cl of
        Rejected msg \<Rightarrow> usage ex (fst st, Stderr_Write msg (snd st))
      | Parsed d args \<Rightarrow> Inr st)"

text \<open>
  \<^verbatim>\<open>func main()\<close>.  The result is the exit code of the process with the state it ends
  in.  Every statement after a call of \<open>usage\<close> reads the package variable as that call
  left it.
\<close>

definition main ::
  "'x opsys \<Rightarrow> ('x, 'a, 's, 'p, 'r) extern \<Rightarrow> cmdline \<Rightarrow> ('x, 'r) state \<Rightarrow> nat \<times> ('x, 'r) state" where
  "main os ex cl st =
     (case flag_Parse ex cl st of
        Inl exit \<Rightarrow> exit
      | Inr st1 \<Rightarrow>
          (case (if length (flag_Args cl) = 0 then usage ex st1 else Inr st1) of
             Inl exit \<Rightarrow> exit
           | Inr (allFixes, w) \<Rightarrow>
               (case os_getwd os w of
                  Inl e \<Rightarrow>
                    (1, (allFixes, log_Error ex e ''where are we?  Nobody knows...'' [] (tick w)))
                | Inr cwd \<Rightarrow>
                    (let w1 = NewImporter ex cwd (tick w);
                         fixHandler = \<lparr>fileSet = FileSet ex (mem w1), doDiff = flag_doDiff cl\<rparr>;
                         fixer = \<lparr>Fixes = allFixes,
                                  HandleFix = handleFix os (GofmtFile ex) fixHandler\<rparr>
                     in case main_loop ex fixer (flag_Args cl) w1 of
                          Inl (code, w2) \<Rightarrow> (code, (allFixes, w2))
                        | Inr w2 \<Rightarrow> (0, (allFixes, w2))))))"

subsection \<open>The fix engine\<close>

text \<open>
  Modelled from the spec: the fix engine \<^verbatim>\<open>fixer.FixPackage\<close>, which \<^verbatim>\<open>main\<close>
  calls and which is not in main.go.  The spec (4.1, FixPackage) has it go through the
  files of the package in their order and, for each file, through the fixes in the order
  given: a fix is applied, and applied again to the tree it made for as long as it reports
  a change, up to a bounded number of times (reaching the bound is an error); then the
  next fix gets the tree.  A fix that cannot handle the tree stops the package with a
  failure that names the file and the fix, and the remaining files are not attempted.  A
  file that came through is handed on to the output (\<open>HandleFix\<close>), changed or not.
  A fix is a function from the tree to the new tree and whether it changed, or an error.
\<close>

type_synonym 'a rewrite = "'a \<Rightarrow> err + ('a \<times> bool)"

fun fixed_point :: "nat \<Rightarrow> 'a rewrite \<Rightarrow> 'a \<Rightarrow> err + 'a" where
  "fixed_point 0 f t = Inl ''iteration cap exceeded''"
| "fixed_point (Suc n) f t =
     (case f t of
        Inl e \<Rightarrow> Inl e
      | Inr (t', changed) \<Rightarrow> if changed then fixed_point n f t' else Inr t')"

fun apply_fixes :: "nat \<Rightarrow> ('a rewrite) Fix list \<Rightarrow> 'a \<Rightarrow> err + 'a" where
  "apply_fixes cap [] t = Inr t"
| "apply_fixes cap (f # fs) t =
     (case fixed_point cap (Rewrite f) t of
        Inl e \<Rightarrow> Inl (Fix.Name f @ '': '' @ e)
      | Inr t' \<Rightarrow> apply_fixes cap fs t')"

fun spec_FixPackage ::
  "nat \<Rightarrow> ('x, 'a, 'a rewrite) Fixer \<Rightarrow> 'a FileInfo list \<Rightarrow> 'x world \<Rightarrow> err option \<times> 'x world" where
  "spec_FixPackage cap fixer [] w = (None, w)"
| "spec_FixPackage cap fixer (info # rest) w =
     (case apply_fixes cap (Fixes fixer) (AST info) of
        Inl e \<Rightarrow> (Some (FileInfo.Name info @ '': '' @ e), w)
      | Inr t \<Rightarrow>
          (case HandleFix fixer (info\<lparr>AST := t\<rparr>) w of
             (Some e, w1) \<Rightarrow> (Some e, w1)
           | (None, w1) \<Rightarrow> spec_FixPackage cap fixer rest w1))"

subsection \<open>A small world to run the program in\<close>

text \<open>
  One source file on the disk, and an operating system in which every call succeeds:
  temporary files get fresh names in \<^verbatim>\<open>/tmp\<close>, and \<^verbatim>\<open>diff\<close> finds a difference
  (it prints it and exits with status 1).  The variants fail at one call each.
\<close>

definition w_init :: "unit world" where
  "w_init = \<lparr>files = [''/src/a.go'' \<mapsto> \<lparr>mode = 420, content = ''old''\<rparr>],
             stdout = [], stderr = [], logged = [], clock = 0, mem = ()\<rparr>"

definition os_ok :: "unit opsys" where
  "os_ok = \<lparr>os_temp = (\<lambda>w dir prefix. Inr (''/tmp/'' @ prefix @ replicate (clock w) (CHR ''0''))),
            os_write = (\<lambda>w name data. (length data, ''no space left on device'')),
            os_close = (\<lambda>w name. None),
            os_open = (\<lambda>w name. None),
            os_readall = (\<lambda>w name. None),
            os_create = (\<lambda>w name. None),
            os_exec = (\<lambda>w cmd args. (''@@ -1 +1 @@'', Some ''exit status 1'')),
            os_getwd = (\<lambda>w. Inr ''/src''),
            os_umask = 18\<rparr>"

definition os_no_temp :: "unit opsys" where
  "os_no_temp = os_ok\<lparr>os_temp := (\<lambda>w dir prefix. Inl ''no space left on device'')\<rparr>"

definition os_short_write :: "unit opsys" where
  "os_short_write = os_ok\<lparr>os_write := (\<lambda>w name data. (1, ''no space left on device''))\<rparr>"

definition os_no_diff :: "unit opsys" where
  "os_no_diff = os_ok\<lparr>os_exec := (\<lambda>w cmd args. ([], Some ''exec: diff: not found''))\<rparr>"

text \<open>
  A renderer that prints the tree as it is (the tree is the text), the handler in both
  modes, and two files to handle: the one on the disk and one that is not there.
\<close>

definition gofmt_text :: "unit \<Rightarrow> string \<Rightarrow> unit \<Rightarrow> err + bytes" where
  "gofmt_text m t s = Inr t"

definition h_diff :: "unit diffFixHandler" where
  "h_diff = \<lparr>fileSet = (), doDiff = True\<rparr>"

definition h_write :: "unit diffFixHandler" where
  "h_write = \<lparr>fileSet = (), doDiff = False\<rparr>"

definition info_a :: "string FileInfo" where
  "info_a = \<lparr>FileInfo.Name = ''/src/a.go'', AST = ''new''\<rparr>"

definition info_missing :: "string FileInfo" where
  "info_missing = \<lparr>FileInfo.Name = ''/src/b.go'', AST = ''new''\<rparr>"

text \<open>The same file, reached by a path relative to a working directory beside it.\<close>

definition w_rel :: "unit world" where
  "w_rel = w_init\<lparr>files := [''../src/a.go'' \<mapsto> \<lparr>mode = 420, content = ''old''\<rparr>]\<rparr>"

definition info_rel :: "string FileInfo" where
  "info_rel = \<lparr>FileInfo.Name = ''../src/a.go'', AST = ''new''\<rparr>"

text \<open>
  Two fixes whose order matters, given in an order that is not the order of their names:
  the first turns the tree \<^verbatim>\<open>x\<close> into \<^verbatim>\<open>y\<close>, the second \<^verbatim>\<open>y\<close> into \<^verbatim>\<open>z\<close>.
  And the packages around \<^verbatim>\<open>main\<close>: the argument \<^verbatim>\<open>good\<close> is a package with the
  file on the disk, \<^verbatim>\<open>broken\<close> a package with a file that is not there, \<^verbatim>\<open>bad\<close>
  does not resolve; the engine is the one of the spec with a bound of 10.  The logger
  writes an error to a log file in \<^verbatim>\<open>/tmp\<close> and, at the verbosity the program runs
  with, drops what is logged at level 1.
\<close>

definition fix_xy :: "(string rewrite) Fix" where
  "fix_xy = \<lparr>Fix.Name = ''b'', Description = ''x becomes y'',
             Rewrite = (\<lambda>t. if t = ''x'' then Inr (''y'', True) else Inr (t, False))\<rparr>"

definition fix_yz :: "(string rewrite) Fix" where
  "fix_yz = \<lparr>Fix.Name = ''a'', Description = ''y becomes z'',
             Rewrite = (\<lambda>t. if t = ''y'' then Inr (''z'', True) else Inr (t, False))\<rparr>"

definition ex_spec :: "(unit, string, unit, string FileInfo list, string rewrite) extern" where
  "ex_spec = \<lparr>NewImporter = (\<lambda>cwd w. w),
              FileSet = (\<lambda>m. ()),
              Import = (\<lambda>arg w. (if arg = ''bad'' then Some ''cannot find package'' else None, w)),
              PackageInfoFor = (\<lambda>m arg.
                 if arg = ''good'' then [\<lparr>FileInfo.Name = ''/src/a.go'', AST = ''x''\<rparr>]
                 else if arg = ''broken'' then [\<lparr>FileInfo.Name = ''/src/b.go'', AST = ''x''\<rparr>]
                 else []),
              ImportPath = (\<lambda>p. ''example.com/pkg''),
              GofmtFile = gofmt_text,
              FixPackage = spec_FixPackage 10,
              LogSink = (\<lambda>entry w.
                 case entry of
                   LogError e msg kvs \<Rightarrow>
                     w\<lparr>files := (files w)(''/tmp/kfix.ERROR'' \<mapsto>
                          \<lparr>mode = 420, content = msg @ '': '' @ e @ ''\<newline>''\<rparr>)\<rparr>
                 | LogInfo v msg kvs \<Rightarrow> w),
              PrintDefaults = ''  -diff\<newline>'',
              TrimSpace = (\<lambda>s. s),
              Quote = (\<lambda>s. [CHR 0x22] @ s @ [CHR 0x22])\<rparr>"

text \<open>
  A path made of plain elements: relative, with no empty element, no \<^verbatim>\<open>.\<close> and no
  \<^verbatim>\<open>..\<close> in it.  \<^verbatim>\<open>filepath.Clean\<close> leaves such a path as it is.
\<close>

definition plain_path :: "string \<Rightarrow> bool" where
  "plain_path p = list_all (\<lambda>e. e \<noteq> [] \<and> e \<noteq> ''.'' \<and> e \<noteq> ''..'') (split_sep p)"

section \<open>Properties\<close>

subsection \<open>Temporary files\<close>

lemma map_del_fresh: "m n = None \<Longrightarrow> (m(n := None)) = m"
  by (rule ext) simp

lemma TempFile_cases:
  "TempFile os dir prefix w = (r, w1) \<Longrightarrow>
     (case r of
        Inl e \<Rightarrow> files w1 = files w
      | Inr n \<Rightarrow> n \<noteq> [] \<and> files w n = None \<and>
                 files w1 = (files w)(n \<mapsto> \<lparr>mode = 384 AND NOT (os_umask os), content = []\<rparr>))"
  by (auto simp: TempFile_def tick_def split: sum.splits if_splits)

lemma file_Write_files:
  "files w n = Some f \<Longrightarrow> file_Write os n data w = (e, w2) \<Longrightarrow>
     (\<exists>d. files w2 = (files w)(n \<mapsto> f\<lparr>content := content f @ d\<rparr>) \<and> (e = None \<longrightarrow> d = data))"
  by (auto simp: file_Write_def tick_def Let_def split: prod.splits if_splits)

lemma file_Close_files: "file_Close os n w = (e, w2) \<Longrightarrow> files w2 = files w"
  by (auto simp: file_Close_def tick_def)

lemma os_Remove_files: "files (os_Remove n w) = (files w)(n := None)"
  by (simp add: os_Remove_def tick_def)

text \<open>The three outcomes of \<open>writeTempFile\<close>, by the call that fails first.\<close>

lemma writeTempFile_cases:
  assumes "writeTempFile os dir prefix data w = ((name, e), w')"
  shows "((e = None) =
           (\<exists>n w1 w2. TempFile os dir prefix w = (Inr n, w1) \<and>
                      file_Write os n data w1 = (None, w2) \<and>
                      file_Close os n w2 = (None, w') \<and> name = n))
    \<and> (e = None \<longrightarrow> name \<noteq> [] \<and> files w name = None \<and>
           files w' = (files w)(name \<mapsto> \<lparr>mode = 384 AND NOT (os_umask os), content = data\<rparr>))
    \<and> (e \<noteq> None \<longrightarrow> name = [] \<and> files w' = files w)"
proof (cases "TempFile os dir prefix w")
  case (Pair r w1)
  show ?thesis
  proof (cases r)
    case (Inl x)
    with Pair assms TempFile_cases[OF Pair] show ?thesis
      by (auto simp: writeTempFile_def)
  next
    case (Inr n)
    from TempFile_cases[OF Pair] Inr have n: "n \<noteq> []" "files w n = None"
      and f1: "files w1 = (files w)(n \<mapsto> \<lparr>mode = 384 AND NOT (os_umask os), content = []\<rparr>)"
      by auto
    obtain ew w2 where W: "file_Write os n data w1 = (ew, w2)" by (cases "file_Write os n data w1")
    obtain ec w3 where C: "file_Close os n w2 = (ec, w3)" by (cases "file_Close os n w2")
    from f1 have "files w1 n = Some \<lparr>mode = 384 AND NOT (os_umask os), content = []\<rparr>" by simp
    from file_Write_files[OF this W] obtain d where
      f2: "files w2 = (files w1)(n \<mapsto> \<lparr>mode = 384 AND NOT (os_umask os), content = d\<rparr>)"
      and d: "ew = None \<longrightarrow> d = data" by auto
    from file_Close_files[OF C] have f3: "files w3 = files w2" .
    show ?thesis
    proof (cases "ew = None \<and> ec = None")
      case True
      with assms Pair Inr W C have "name = n" "e = None" "w' = w3"
        by (auto simp: writeTempFile_def)
      with True n f1 f2 f3 d Pair Inr W C show ?thesis by auto
    next
      case False
      with assms Pair Inr W C have r: "name = []" "e \<noteq> None" "w' = os_Remove n w3"
        by (auto simp: writeTempFile_def split: if_splits)
      have "files w' = files w"
        using r f1 f2 f3 n by (simp add: os_Remove_files map_del_fresh)
      with r show ?thesis using False Pair Inr W C by auto
    qed
  qed
qed

lemma writeTempFile_fail_files:
  "writeTempFile os dir prefix data w = ((name, Some e), w') \<Longrightarrow> files w' = files w"
  using writeTempFile_cases[of os dir prefix data w name "Some e" w'] by simp

lemma writeTempFile_ok_files:
  "writeTempFile os dir prefix data w = ((name, None), w') \<Longrightarrow>
     files w name = None \<and>
     files w' = (files w)(name \<mapsto> \<lparr>mode = 384 AND NOT (os_umask os), content = data\<rparr>)"
  using writeTempFile_cases[of os dir prefix data w name None w'] by simp

text \<open>
  C9.  \<open>writeTempFile\<close> is all or nothing.  It returns no error exactly when the file was
  created, the write took all of the data and the close succeeded; the name it returns
  then is not empty, is new on the disk, and holds exactly the data.  When the creation,
  the write or the close fails it returns the empty name with the error, and the disk is
  as it was before the call: no temporary file remains.
\<close>

theorem writeTempFile_atomic:
  assumes "writeTempFile os dir prefix data w = ((name, e), w')"
  shows "((e = None) =
           (\<exists>n w1 w2. TempFile os dir prefix w = (Inr n, w1) \<and>
                      file_Write os n data w1 = (None, w2) \<and>
                      file_Close os n w2 = (None, w') \<and> name = n))
    \<and> (e = None \<longrightarrow> name \<noteq> [] \<and> files w name = None \<and>
           files w' = (files w)(name \<mapsto> \<lparr>mode = 384 AND NOT (os_umask os), content = data\<rparr>))
    \<and> (e \<noteq> None \<longrightarrow> name = [] \<and> files w' = files w)"
  using assms by (rule writeTempFile_cases)

lemmas fixture_defs = w_init_def os_ok_def os_no_temp_def os_short_write_def os_no_diff_def

lemmas temp_defs = writeTempFile_def TempFile_def file_Write_def file_Close_def os_Remove_def
  CombinedOutput_def tick_def

lemma os_umask_fixtures:
  "os_umask os_ok = 18" "os_umask os_short_write = 18" "os_umask os_no_temp = 18"
  "os_umask os_no_diff = 18"
  by (simp_all add: fixture_defs)

lemma writeTempFile_os_ok:
  "fst (writeTempFile os_ok [] ''kfix'' ''new'' w_init) = (''/tmp/kfix'', None)"
  by (simp add: fixture_defs temp_defs)

lemma writeTempFile_os_short_write:
  "fst (writeTempFile os_short_write [] ''kfix'' ''new'' w_init) =
     ([], Some ''no space left on device'')"
  by (simp add: fixture_defs temp_defs)

theorem writeTempFile_atomic_witness:
  "fst (writeTempFile os_ok [] ''kfix'' ''new'' w_init) = (''/tmp/kfix'', None)
   \<and> files (snd (writeTempFile os_ok [] ''kfix'' ''new'' w_init)) =
       (files w_init)(''/tmp/kfix'' \<mapsto> \<lparr>mode = 384, content = ''new''\<rparr>)
   \<and> fst (writeTempFile os_short_write [] ''kfix'' ''new'' w_init) =
       ([], Some ''no space left on device'')
   \<and> files (snd (writeTempFile os_short_write [] ''kfix'' ''new'' w_init)) = files w_init"
proof -
  have h1: "writeTempFile os_ok [] ''kfix'' ''new'' w_init =
      ((''/tmp/kfix'', None), snd (writeTempFile os_ok [] ''kfix'' ''new'' w_init))"
    using writeTempFile_os_ok by (simp add: prod_eq_iff)
  have h2: "writeTempFile os_short_write [] ''kfix'' ''new'' w_init =
      (([], Some ''no space left on device''),
       snd (writeTempFile os_short_write [] ''kfix'' ''new'' w_init))"
    using writeTempFile_os_short_write by (simp add: prod_eq_iff)
  from writeTempFile_atomic[OF h1] writeTempFile_atomic[OF h2]
    writeTempFile_os_ok writeTempFile_os_short_write
  show ?thesis by (simp add: os_umask_fixtures)
qed

subsection \<open>The diff routine\<close>

lemma CombinedOutput_files: "files (snd (CombinedOutput os cmd args w)) = files w"
  by (simp add: CombinedOutput_def tick_def)

text \<open>Whatever happens in \<open>diff\<close>, the disk after the call is the disk before it.\<close>

lemma diff_files: "files (snd (diff os b1 b2 w)) = files w"
proof (cases "writeTempFile os [] ''kfix'' b1 w")
  case (Pair r1 w1)
  obtain f1 e1 where r1: "r1 = (f1, e1)" by (cases r1)
  show ?thesis
  proof (cases e1)
    case (Some e)
    with Pair r1 writeTempFile_fail_files[of os "[]" "''kfix''" b1 w f1 e w1]
    show ?thesis by (simp add: diff_def)
  next
    case None
    with Pair r1 have T1: "writeTempFile os [] ''kfix'' b1 w = ((f1, None), w1)" by simp
    note k1 = writeTempFile_ok_files[OF T1]
    obtain r2 w2 where P2: "writeTempFile os [] ''kfix'' b2 w1 = (r2, w2)"
      by (cases "writeTempFile os [] ''kfix'' b2 w1")
    obtain f2 e2 where r2: "r2 = (f2, e2)" by (cases r2)
    show ?thesis
    proof (cases e2)
      case (Some e)
      with P2 r2 writeTempFile_fail_files[of os "[]" "''kfix''" b2 w1 f2 e w2]
      have "files w2 = files w1" by simp
      with T1 P2 r2 Some k1 show ?thesis
        by (simp add: diff_def os_Remove_files map_del_fresh)
    next
      case None
      with P2 r2 have T2: "writeTempFile os [] ''kfix'' b2 w1 = ((f2, None), w2)" by simp
      note k2 = writeTempFile_ok_files[OF T2]
      obtain r3 w3 where X: "CombinedOutput os ''diff'' [''-u'', f1, f2] w2 = (r3, w3)"
        by (cases "CombinedOutput os ''diff'' [''-u'', f1, f2] w2")
      with CombinedOutput_files[of os "''diff''" "[''-u'', f1, f2]" w2]
      have f3: "files w3 = files w2" by simp
      from k1 k2 have ne: "f1 \<noteq> f2" by auto
      have "files (os_Remove f1 (os_Remove f2 w3)) = files w"
        using k1 k2 f3 ne by (auto simp: os_Remove_files map_del_fresh fun_upd_twist)
      with T1 T2 X show ?thesis
        by (simp add: diff_def split: prod.splits)
    qed
  qed
qed

text \<open>What \<open>diff\<close> returns, by the outcome of its three steps.\<close>

lemma diff_result:
  assumes "writeTempFile os [] ''kfix'' b1 w = ((f1, e1), w1)"
    and "writeTempFile os [] ''kfix'' b2 w1 = ((f2, e2), w2)"
    and "os_exec os w2 ''diff'' [''-u'', f1, f2] = (out, ex)"
  shows "fst (diff os b1 b2 w) =
           (if e1 \<noteq> None then ([], e1)
            else if e2 \<noteq> None then ([], e2)
            else if out \<noteq> [] then (out, None)
            else ([], ex))"
  using assms by (cases e1; cases e2) (auto simp: diff_def CombinedOutput_def)

text \<open>
  C4.  On every path out of \<open>diff\<close> (the first temporary file not written, the second
  not written, the utility run, with or without success) the disk is left exactly as it
  was found; the temporary files that were written were new names, and neither of them is
  on the disk when \<open>diff\<close> returns.
\<close>

theorem diff_removes_temp_files:
  "files (snd (diff os b1 b2 w)) = files w
   \<and> (\<forall>f1 w1. writeTempFile os [] ''kfix'' b1 w = ((f1, None), w1) \<longrightarrow>
        files (snd (diff os b1 b2 w)) f1 = None
        \<and> (\<forall>f2 w2. writeTempFile os [] ''kfix'' b2 w1 = ((f2, None), w2) \<longrightarrow>
             files (snd (diff os b1 b2 w)) f2 = None))"
proof -
  have "files (snd (diff os b1 b2 w)) f2 = None"
    if "writeTempFile os [] ''kfix'' b1 w = ((f1, None), w1)"
      and "writeTempFile os [] ''kfix'' b2 w1 = ((f2, None), w2)" for f1 w1 f2 w2
    using writeTempFile_ok_files[OF that(1)] writeTempFile_ok_files[OF that(2)]
    by (auto simp: diff_files split: if_splits)
  moreover have "files (snd (diff os b1 b2 w)) f1 = None"
    if "writeTempFile os [] ''kfix'' b1 w = ((f1, None), w1)" for f1 w1
    using writeTempFile_ok_files[OF that] by (simp add: diff_files)
  ultimately show ?thesis by (simp add: diff_files)
qed

lemma writeTempFile_first_os_ok:
  "fst (writeTempFile os_ok [] ''kfix'' ''old'' w_init) = (''/tmp/kfix'', None)"
  by (simp add: fixture_defs temp_defs)

lemma writeTempFile_second_os_ok:
  "fst (writeTempFile os_ok [] ''kfix'' ''new''
          (snd (writeTempFile os_ok [] ''kfix'' ''old'' w_init))) = (''/tmp/kfix000'', None)"
  by (simp add: fixture_defs temp_defs)

lemma writeTempFile_first_os_no_diff:
  "fst (writeTempFile os_no_diff [] ''kfix'' ''old'' w_init) = (''/tmp/kfix'', None)"
  by (simp add: fixture_defs temp_defs)

lemma writeTempFile_second_os_no_diff:
  "fst (writeTempFile os_no_diff [] ''kfix'' ''new''
          (snd (writeTempFile os_no_diff [] ''kfix'' ''old'' w_init))) = (''/tmp/kfix000'', None)"
  by (simp add: fixture_defs temp_defs)

theorem diff_removes_temp_files_witness:
  "files (snd (diff os_ok ''old'' ''new'' w_init)) = files w_init
   \<and> files (snd (writeTempFile os_ok [] ''kfix'' ''old'' w_init)) ''/tmp/kfix'' \<noteq> None
   \<and> files (snd (diff os_ok ''old'' ''new'' w_init)) ''/tmp/kfix'' = None
   \<and> files (snd (diff os_ok ''old'' ''new'' w_init)) ''/tmp/kfix000'' = None"
proof -
  let ?w1 = "snd (writeTempFile os_ok [] ''kfix'' ''old'' w_init)"
  let ?w2 = "snd (writeTempFile os_ok [] ''kfix'' ''new'' ?w1)"
  have h1: "writeTempFile os_ok [] ''kfix'' ''old'' w_init = ((''/tmp/kfix'', None), ?w1)"
    using writeTempFile_first_os_ok by (simp add: prod_eq_iff)
  have h2: "writeTempFile os_ok [] ''kfix'' ''new'' ?w1 = ((''/tmp/kfix000'', None), ?w2)"
    using writeTempFile_second_os_ok by (simp add: prod_eq_iff)
  have "files ?w1 ''/tmp/kfix'' \<noteq> None"
    using writeTempFile_ok_files[OF h1] by simp
  with diff_removes_temp_files[of os_ok "''old''" "''new''" w_init] h1 h2
  show ?thesis by blast
qed

text \<open>
  C1, as the code has it.  When both temporary files are written and the utility prints
  anything, \<open>diff\<close> returns that output and no error, whatever the exit status.  It
  returns an error exactly when the first temporary file cannot be written, or the second
  cannot, or the utility prints nothing and its run fails; in the first two cases the
  utility is not run at all.
\<close>

theorem diff_error_cases:
  assumes "writeTempFile os [] ''kfix'' b1 w = ((f1, e1), w1)"
    and "writeTempFile os [] ''kfix'' b2 w1 = ((f2, e2), w2)"
    and "os_exec os w2 ''diff'' [''-u'', f1, f2] = (out, ex)"
  shows "(e1 = None \<and> e2 = None \<and> out \<noteq> [] \<longrightarrow> fst (diff os b1 b2 w) = (out, None))
       \<and> ((snd (fst (diff os b1 b2 w)) \<noteq> None) =
            (e1 \<noteq> None \<or> (e1 = None \<and> e2 \<noteq> None) \<or>
             (e1 = None \<and> e2 = None \<and> out = [] \<and> ex \<noteq> None)))
       \<and> (e1 \<noteq> None \<longrightarrow> diff os b1 b2 w = (([], e1), w1))"
proof -
  have "diff os b1 b2 w = (([], e1), w1)" if "e1 \<noteq> None"
    using that assms(1) by (auto simp: diff_def)
  with diff_result[OF assms] show ?thesis by auto
qed

theorem diff_error_cases_witness:
  "fst (diff os_ok ''old'' ''new'' w_init) = (''@@ -1 +1 @@'', None)
   \<and> fst (diff os_no_diff ''old'' ''new'' w_init) = ([], Some ''exec: diff: not found'')"
proof -
  let ?w1 = "snd (writeTempFile os_ok [] ''kfix'' ''old'' w_init)"
  let ?w2 = "snd (writeTempFile os_ok [] ''kfix'' ''new'' ?w1)"
  let ?v1 = "snd (writeTempFile os_no_diff [] ''kfix'' ''old'' w_init)"
  let ?v2 = "snd (writeTempFile os_no_diff [] ''kfix'' ''new'' ?v1)"
  have h1: "writeTempFile os_ok [] ''kfix'' ''old'' w_init = ((''/tmp/kfix'', None), ?w1)"
    using writeTempFile_first_os_ok by (simp add: prod_eq_iff)
  have h2: "writeTempFile os_ok [] ''kfix'' ''new'' ?w1 = ((''/tmp/kfix000'', None), ?w2)"
    using writeTempFile_second_os_ok by (simp add: prod_eq_iff)
  have h3: "os_exec os_ok ?w2 ''diff'' [''-u'', ''/tmp/kfix'', ''/tmp/kfix000''] =
              (''@@ -1 +1 @@'', Some ''exit status 1'')"
    by (simp add: os_ok_def)
  have g1: "writeTempFile os_no_diff [] ''kfix'' ''old'' w_init = ((''/tmp/kfix'', None), ?v1)"
    using writeTempFile_first_os_no_diff by (simp add: prod_eq_iff)
  have g2: "writeTempFile os_no_diff [] ''kfix'' ''new'' ?v1 = ((''/tmp/kfix000'', None), ?v2)"
    using writeTempFile_second_os_no_diff by (simp add: prod_eq_iff)
  have g3: "os_exec os_no_diff ?v2 ''diff'' [''-u'', ''/tmp/kfix'', ''/tmp/kfix000''] =
              ([], Some ''exec: diff: not found'')"
    by (simp add: os_no_diff_def os_ok_def)
  have "snd (fst (diff os_no_diff ''old'' ''new'' w_init)) \<noteq> None"
    using diff_error_cases[OF g1 g2 g3] by simp
  moreover have "fst (diff os_no_diff ''old'' ''new'' w_init) = ([], Some ''exec: diff: not found'')"
    using diff_result[OF g1 g2 g3] by simp
  moreover have "fst (diff os_ok ''old'' ''new'' w_init) = (''@@ -1 +1 @@'', None)"
    using diff_error_cases[OF h1 h2 h3] by simp
  ultimately show ?thesis by simp
qed

text \<open>
  The claim as it is written fails where no room is left for a temporary file: \<open>diff\<close>
  returns an error after a single call to the operating system, and the utility, which
  would have printed a difference, has not been run.
\<close>

theorem diff_error_counterexample:
  "fst (diff os_no_temp ''old'' ''new'' w_init) = ([], Some ''no space left on device'')
   \<and> clock (snd (diff os_no_temp ''old'' ''new'' w_init)) = 1
   \<and> os_exec os_no_temp (snd (diff os_no_temp ''old'' ''new'' w_init)) ''diff''
        [''-u'', ''/tmp/kfix'', ''/tmp/kfix000''] = (''@@ -1 +1 @@'', Some ''exit status 1'')"
  by (simp add: fixture_defs temp_defs diff_def)

subsection \<open>The fix handler\<close>

lemma readFile_files: "files (snd (readFile os n w)) = files w"
  by (simp add: readFile_def tick_def Let_def split: option.splits)

lemma readFile_Inr:
  "readFile os n w = (Inr src, w1) \<Longrightarrow> \<exists>f. files w n = Some f \<and> src = content f"
  by (auto simp: readFile_def tick_def Let_def split: option.splits)

lemma readFile_stdout: "stdout (snd (readFile os n w)) = stdout w"
  by (simp add: readFile_def tick_def Let_def split: option.splits)

lemma WriteFile_existing:
  assumes "files w n = Some old" and "WriteFile os n data perm w = (None, w')"
  shows "files w' = (files w)(n \<mapsto> old\<lparr>content := data\<rparr>)"
proof -
  from assms have c: "os_create os w n = None" and ne: "n \<noteq> []"
    by (auto simp: WriteFile_def split: option.splits if_splits)
  let ?w1 = "tick (w\<lparr>files := (files w)(n \<mapsto> old\<lparr>content := []\<rparr>)\<rparr>)"
  obtain ew w2 where W: "file_Write os n data ?w1 = (ew, w2)" by (cases "file_Write os n data ?w1")
  obtain ec w3 where C: "file_Close os n w2 = (ec, w3)" by (cases "file_Close os n w2")
  from assms c ne W C have r: "ew = None" "ec = None" "w' = w3"
    by (auto simp: WriteFile_def split: if_splits)
  have "files ?w1 n = Some (old\<lparr>content := []\<rparr>)" by (simp add: tick_def)
  from file_Write_files[OF this W] r obtain d where
    "files w2 = (files ?w1)(n \<mapsto> old\<lparr>content := [] @ d\<rparr>)" "d = data" by auto
  with file_Close_files[OF C] r show ?thesis by (simp add: tick_def)
qed

lemma WriteFile_created:
  assumes "files w n = None" and "WriteFile os n data perm w = (None, w')"
  shows "files w' = (files w)(n \<mapsto> \<lparr>mode = perm AND NOT (os_umask os), content = data\<rparr>)"
proof -
  from assms have c: "os_create os w n = None" and ne: "n \<noteq> []"
    by (auto simp: WriteFile_def split: option.splits if_splits)
  let ?f = "\<lparr>mode = perm AND NOT (os_umask os), content = []\<rparr>"
  let ?w1 = "tick (w\<lparr>files := (files w)(n \<mapsto> ?f)\<rparr>)"
  obtain ew w2 where W: "file_Write os n data ?w1 = (ew, w2)" by (cases "file_Write os n data ?w1")
  obtain ec w3 where C: "file_Close os n w2 = (ec, w3)" by (cases "file_Close os n w2")
  from assms c ne W C have r: "ew = None" "ec = None" "w' = w3"
    by (auto simp: WriteFile_def split: if_splits)
  have "files ?w1 n = Some ?f" by (simp add: tick_def)
  from file_Write_files[OF this W] r obtain d where
    "files w2 = (files ?w1)(n \<mapsto> ?f\<lparr>content := [] @ d\<rparr>)" "d = data" by auto
  with file_Close_files[OF C] r show ?thesis by (simp add: tick_def)
qed

lemma TempFile_stdout: "stdout (snd (TempFile os dir prefix w)) = stdout w"
  by (simp add: TempFile_def tick_def split: sum.splits)

lemma file_Write_stdout: "stdout (snd (file_Write os n data w)) = stdout w"
  by (simp add: file_Write_def tick_def Let_def split: prod.splits)

lemma file_Close_stdout: "stdout (snd (file_Close os n w)) = stdout w"
  by (simp add: file_Close_def tick_def)

lemma os_Remove_stdout: "stdout (os_Remove n w) = stdout w"
  by (simp add: os_Remove_def tick_def)

lemma CombinedOutput_stdout: "stdout (snd (CombinedOutput os cmd args w)) = stdout w"
  by (simp add: CombinedOutput_def tick_def)

lemma writeTempFile_stdout: "stdout (snd (writeTempFile os dir prefix data w)) = stdout w"
proof (cases "TempFile os dir prefix w")
  case (Pair r w1)
  with TempFile_stdout[of os dir prefix w] have s1: "stdout w1 = stdout w" by simp
  show ?thesis
  proof (cases r)
    case (Inl e)
    with Pair s1 show ?thesis by (simp add: writeTempFile_def)
  next
    case (Inr n)
    obtain ew w2 where W: "file_Write os n data w1 = (ew, w2)" by (cases "file_Write os n data w1")
    obtain ec w3 where C: "file_Close os n w2 = (ec, w3)" by (cases "file_Close os n w2")
    from W file_Write_stdout[of os n data w1] have s2: "stdout w2 = stdout w1" by simp
    from C file_Close_stdout[of os n w2] have s3: "stdout w3 = stdout w2" by simp
    from Pair Inr W C s1 s2 s3 show ?thesis
      by (simp add: writeTempFile_def os_Remove_stdout)
  qed
qed

lemma diff_stdout: "stdout (snd (diff os b1 b2 w)) = stdout w"
proof (cases "writeTempFile os [] ''kfix'' b1 w")
  case (Pair r1 w1)
  with writeTempFile_stdout[of os "[]" "''kfix''" b1 w] have s1: "stdout w1 = stdout w" by simp
  obtain f1 e1 where r1: "r1 = (f1, e1)" by (cases r1)
  obtain r2 w2 where P2: "writeTempFile os [] ''kfix'' b2 w1 = (r2, w2)"
    by (cases "writeTempFile os [] ''kfix'' b2 w1")
  with writeTempFile_stdout[of os "[]" "''kfix''" b2 w1] have s2: "stdout w2 = stdout w1" by simp
  obtain f2 e2 where r2: "r2 = (f2, e2)" by (cases r2)
  obtain r3 w3 where X: "CombinedOutput os ''diff'' [''-u'', f1, f2] w2 = (r3, w3)"
    by (cases "CombinedOutput os ''diff'' [''-u'', f1, f2] w2")
  with CombinedOutput_stdout[of os "''diff''" "[''-u'', f1, f2]" w2]
  have s3: "stdout w3 = stdout w2" by simp
  from Pair r1 P2 r2 X s1 s2 s3 show ?thesis
    by (cases e1; cases e2) (simp_all add: diff_def os_Remove_stdout split: prod.splits)
qed

lemma split_sep_ne: "split_sep p \<noteq> []"
  by (induction p) (simp_all add: Let_def)

lemma join_sep_Cons: "r \<noteq> [] \<Longrightarrow> join_sep (x # r) = x @ ''/'' @ join_sep r"
  by (cases r) simp_all

lemma join_sep_hd: "r \<noteq> [] \<Longrightarrow> join_sep ((c # hd r) # tl r) = c # join_sep r"
  by (cases r rule: join_sep.cases) simp_all

lemma join_split: "join_sep (split_sep p) = p"
  by (induction p) (simp_all add: Let_def join_sep_Cons join_sep_hd split_sep_ne)


lemma split_fixed: "split_sep (''fixed/'' @ p) = ''fixed'' # split_sep p"
  by (simp add: Let_def)

lemma clean_plain:
  "list_all (\<lambda>e. e \<noteq> [] \<and> e \<noteq> ''.'' \<and> e \<noteq> ''..'') es \<Longrightarrow> clean_elems rooted out es = out @ es"
  by (induction es arbitrary: out) auto

lemma Join_fixed_plain: "plain_path p \<Longrightarrow> Join [''fixed'', p] = ''fixed/'' @ p"
proof -
  assume p: "plain_path p"
  have "clean_elems False [] (split_sep (''fixed/'' @ p)) = ''fixed'' # split_sep p"
    using p clean_plain[of "''fixed'' # split_sep p" False "[]"]
    by (simp add: plain_path_def split_fixed)
  then have "Clean (''fixed/'' @ p) = join_sep (''fixed'' # split_sep p)"
    by (simp add: Clean_def)
  also have "\<dots> = ''fixed/'' @ p"
    by (simp add: join_sep_Cons split_sep_ne join_split)
  finally show ?thesis by simp
qed

lemmas handler_fixture_defs = gofmt_text_def h_diff_def h_write_def info_a_def info_missing_def

lemma handleFix_diff_os_ok:
  "fst (handleFix os_ok gofmt_text h_diff info_a w_init) = None"
  "stdout (snd (handleFix os_ok gofmt_text h_diff info_a w_init)) =
      ''diff /src/a.go fixed/src/a.go\<newline>@@ -1 +1 @@''"
  by (simp_all add: handleFix_def readFile_def diff_def temp_defs fixture_defs handler_fixture_defs
      Stdout_Write_def Clean_def Let_def)

lemma handleFix_write_missing:
  "fst (handleFix os_ok gofmt_text h_write info_missing w_init) = Some ''open /src/b.go: no such file or directory''"
  "files (snd (handleFix os_ok gofmt_text h_write info_missing w_init)) ''/src/b.go'' = None"
  by (simp_all add: handleFix_def readFile_def diff_def temp_defs fixture_defs handler_fixture_defs
      Stdout_Write_def Clean_def Let_def)

lemma handleFix_write_os_ok:
  "fst (handleFix os_ok gofmt_text h_write info_a w_init) = None"
  "files (snd (handleFix os_ok gofmt_text h_write info_a w_init)) ''/src/a.go'' = Some \<lparr>mode = 420, content = ''new''\<rparr>"
  by (simp_all add: handleFix_def readFile_def WriteFile_def temp_defs fixture_defs handler_fixture_defs
      Stdout_Write_def Clean_def Let_def)


text \<open>
  C5.  In diff mode, handling a file leaves the bytes (and the mode) at the file's path
  as they were; indeed it leaves the whole disk as it was, whether the read, the
  rendering or the diff utility succeeds or fails.
\<close>

theorem handleFix_diff_keeps_file:
  assumes "doDiff h"
  shows "files (snd (handleFix os gofmt h info w)) (FileInfo.Name info) = files w (FileInfo.Name info)
     \<and> files (snd (handleFix os gofmt h info w)) = files w"
proof -
  have "files (snd (handleFix os gofmt h info w)) = files w"
  proof -
    obtain rr w1 where R: "readFile os (FileInfo.Name info) w = (rr, w1)"
      by (cases "readFile os (FileInfo.Name info) w")
    with readFile_files[of os "FileInfo.Name info" w] have f1: "files w1 = files w" by simp
    show ?thesis
    proof (cases rr)
      case (Inl e)
      with R f1 show ?thesis by (simp add: handleFix_def)
    next
      case (Inr src)
      show ?thesis
      proof (cases "gofmt (mem w1) (AST info) (fileSet h)")
        case (Inl e)
        with R \<open>rr = Inr src\<close> f1 show ?thesis by (simp add: handleFix_def)
      next
        case newSrc: (Inr newSrc)
        obtain data de w2 where D: "diff os src newSrc w1 = ((data, de), w2)"
          by (cases "diff os src newSrc w1") auto
        with diff_files[of os src newSrc w1] f1 have "files w2 = files w" by simp
        with R Inr newSrc D assms show ?thesis
          by (cases de) (simp_all add: handleFix_def Stdout_Write_def)
      qed
    qed
  qed
  then show ?thesis by simp
qed

lemma handleFix_diff_os_no_diff:
  "fst (handleFix os_no_diff gofmt_text h_diff info_a w_init) = Some ''computing diff: exec: diff: not found''"
  by (simp_all add: handleFix_def readFile_def diff_def temp_defs fixture_defs handler_fixture_defs
      Stdout_Write_def Clean_def Let_def)

theorem handleFix_diff_keeps_file_witness:
  "doDiff h_diff
   \<and> fst (handleFix os_ok gofmt_text h_diff info_a w_init) = None
   \<and> files (snd (handleFix os_ok gofmt_text h_diff info_a w_init)) ''/src/a.go'' =
       Some \<lparr>mode = 420, content = ''old''\<rparr>
   \<and> fst (handleFix os_no_diff gofmt_text h_diff info_a w_init) =
       Some ''computing diff: exec: diff: not found''
   \<and> files (snd (handleFix os_no_diff gofmt_text h_diff info_a w_init)) ''/src/a.go'' =
       Some \<lparr>mode = 420, content = ''old''\<rparr>"
proof -
  have d: "doDiff h_diff" by (simp add: h_diff_def)
  have n: "FileInfo.Name info_a = ''/src/a.go''" by (simp add: info_a_def)
  have f: "files w_init ''/src/a.go'' = Some \<lparr>mode = 420, content = ''old''\<rparr>"
    by (simp add: w_init_def)
  from handleFix_diff_keeps_file[OF d, of os_ok gofmt_text info_a w_init]
    handleFix_diff_keeps_file[OF d, of os_no_diff gofmt_text info_a w_init]
  show ?thesis using d n f handleFix_diff_os_ok(1) handleFix_diff_os_no_diff by simp
qed

lemma handleFix_diff_stdout:
  assumes "doDiff h"
  shows "(fst (handleFix os gofmt h info w) \<noteq> None \<longrightarrow>
            stdout (snd (handleFix os gofmt h info w)) = stdout w)
   \<and> (fst (handleFix os gofmt h info w) = None \<longrightarrow>
        (\<exists>src w1 newSrc f1 wa f2 wb.
            readFile os (FileInfo.Name info) w = (Inr src, w1) \<and>
            gofmt (mem w1) (AST info) (fileSet h) = Inr newSrc \<and>
            writeTempFile os [] ''kfix'' src w1 = ((f1, None), wa) \<and>
            writeTempFile os [] ''kfix'' newSrc wa = ((f2, None), wb) \<and>
            stdout (snd (handleFix os gofmt h info w)) =
              stdout w @ ''diff '' @ FileInfo.Name info @ '' '' @
              Join [''fixed'', FileInfo.Name info] @ ''\<newline>'' @
              fst (os_exec os wb ''diff'' [''-u'', f1, f2])))"
proof -
  obtain rr w1 where R: "readFile os (FileInfo.Name info) w = (rr, w1)"
    by (cases "readFile os (FileInfo.Name info) w")
  with readFile_stdout[of os "FileInfo.Name info" w] have s1: "stdout w1 = stdout w" by simp
  show ?thesis
  proof (cases rr)
    case (Inl e)
    with R s1 show ?thesis by (simp add: handleFix_def)
  next
    case (Inr src)
    note src = this
    show ?thesis
    proof (cases "gofmt (mem w1) (AST info) (fileSet h)")
      case (Inl e)
      with R src s1 show ?thesis by (simp add: handleFix_def)
    next
      case (Inr newSrc)
      obtain f1 e1 wa where T1: "writeTempFile os [] ''kfix'' src w1 = ((f1, e1), wa)"
        by (cases "writeTempFile os [] ''kfix'' src w1") auto
      obtain f2 e2 wb where T2: "writeTempFile os [] ''kfix'' newSrc wa = ((f2, e2), wb)"
        by (cases "writeTempFile os [] ''kfix'' newSrc wa") auto
      obtain out ex where X: "os_exec os wb ''diff'' [''-u'', f1, f2] = (out, ex)"
        by (cases "os_exec os wb ''diff'' [''-u'', f1, f2]")
      note D = diff_result[OF T1 T2 X]
      obtain data de w2 where Dw: "diff os src newSrc w1 = ((data, de), w2)"
        by (cases "diff os src newSrc w1") auto
      with diff_stdout[of os src newSrc w1] s1 have s2: "stdout w2 = stdout w" by simp
      show ?thesis
      proof (cases de)
        case (Some e)
        with R src Inr Dw s2 assms show ?thesis by (simp add: handleFix_def)
      next
        case None
        with D Dw have "e1 = None" "e2 = None" "data = out"
          by (auto split: if_splits)
        with R src Inr Dw None s2 assms T1 T2 X show ?thesis
          by (simp add: handleFix_def Stdout_Write_def)
      qed
    qed
  qed
qed

text \<open>
  C8, as the code has it.  In diff mode, when handling a file fails (the read, the
  rendering or the diff), nothing is printed for it.  When it succeeds, exactly this is
  printed: the header line \<^verbatim>\<open>diff\<close>, the path, and \<^verbatim>\<open>filepath.Join("fixed", path)\<close>,
  then the output of the utility as it came.  The joined path is cleaned; it is
  \<^verbatim>\<open>fixed/\<close> followed by the path as it is when the path is made of plain elements.
\<close>

theorem handleFix_diff_output:
  assumes "doDiff h"
  shows "(fst (handleFix os gofmt h info w) \<noteq> None \<longrightarrow>
            stdout (snd (handleFix os gofmt h info w)) = stdout w)
   \<and> (fst (handleFix os gofmt h info w) = None \<longrightarrow>
        (\<exists>src w1 newSrc f1 wa f2 wb.
            readFile os (FileInfo.Name info) w = (Inr src, w1) \<and>
            gofmt (mem w1) (AST info) (fileSet h) = Inr newSrc \<and>
            writeTempFile os [] ''kfix'' src w1 = ((f1, None), wa) \<and>
            writeTempFile os [] ''kfix'' newSrc wa = ((f2, None), wb) \<and>
            stdout (snd (handleFix os gofmt h info w)) =
              stdout w @ ''diff '' @ FileInfo.Name info @ '' '' @
              Join [''fixed'', FileInfo.Name info] @ ''\<newline>'' @
              fst (os_exec os wb ''diff'' [''-u'', f1, f2])))
   \<and> (plain_path (FileInfo.Name info) \<longrightarrow>
        Join [''fixed'', FileInfo.Name info] = ''fixed/'' @ FileInfo.Name info)"
  using handleFix_diff_stdout[OF assms, of os gofmt info w]
    Join_fixed_plain[of "FileInfo.Name info"]
  by blast

lemma handleFix_diff_os_ok_rel:
  "fst (handleFix os_ok gofmt_text h_diff info_rel w_rel) = None"
  "stdout (snd (handleFix os_ok gofmt_text h_diff info_rel w_rel)) =
      ''diff ../src/a.go src/a.go\<newline>@@ -1 +1 @@''"
  by (simp_all add: handleFix_def readFile_def diff_def temp_defs fixture_defs handler_fixture_defs
      w_rel_def info_rel_def Stdout_Write_def Clean_def Let_def)

text \<open>
  The claim as it is written fails where cleaning changes the joined path.  For the
  absolute path \<^verbatim>\<open>/src/a.go\<close> the header names \<^verbatim>\<open>fixed/src/a.go\<close>, not
  \<^verbatim>\<open>fixed/\<close> followed by the path; for the relative path \<^verbatim>\<open>../src/a.go\<close> it names
  \<^verbatim>\<open>src/a.go\<close>, with no \<^verbatim>\<open>fixed/\<close> left.
\<close>

theorem handleFix_diff_output_counterexample:
  "doDiff h_diff \<and> FileInfo.Name info_a = ''/src/a.go''
   \<and> fst (handleFix os_ok gofmt_text h_diff info_a w_init) = None
   \<and> stdout (snd (handleFix os_ok gofmt_text h_diff info_a w_init)) =
        ''diff /src/a.go fixed/src/a.go\<newline>@@ -1 +1 @@''
   \<and> stdout (snd (handleFix os_ok gofmt_text h_diff info_a w_init)) \<noteq>
        stdout w_init @ ''diff '' @ ''/src/a.go'' @ '' fixed/'' @ ''/src/a.go'' @ ''\<newline>'' @
        ''@@ -1 +1 @@''
   \<and> FileInfo.Name info_rel = ''../src/a.go''
   \<and> fst (handleFix os_ok gofmt_text h_diff info_rel w_rel) = None
   \<and> stdout (snd (handleFix os_ok gofmt_text h_diff info_rel w_rel)) =
        ''diff ../src/a.go src/a.go\<newline>@@ -1 +1 @@''
   \<and> stdout (snd (handleFix os_ok gofmt_text h_diff info_rel w_rel)) \<noteq>
        stdout w_rel @ ''diff '' @ ''../src/a.go'' @ '' fixed/'' @ ''../src/a.go'' @ ''\<newline>'' @
        ''@@ -1 +1 @@''"
proof -
  have a: "doDiff h_diff" "FileInfo.Name info_a = ''/src/a.go''" "stdout w_init = []"
    "FileInfo.Name info_rel = ''../src/a.go''" "stdout w_rel = []"
    by (simp_all add: h_diff_def info_a_def info_rel_def w_init_def w_rel_def)
  show ?thesis using a handleFix_diff_os_ok handleFix_diff_os_ok_rel by simp
qed

lemma osfile_content_update: "f\<lparr>content := c\<rparr> = \<lparr>mode = mode f, content = c\<rparr>"
  by (cases f) simp

lemma handleFix_write_cases:
  assumes "\<not> doDiff h"
  shows "(files w (FileInfo.Name info) = None \<longrightarrow>
            fst (handleFix os gofmt h info w) \<noteq> None \<and>
            files (snd (handleFix os gofmt h info w)) = files w)
   \<and> (\<forall>src w1 newSrc.
         readFile os (FileInfo.Name info) w = (Inr src, w1) \<and>
         gofmt (mem w1) (AST info) (fileSet h) = Inr newSrc \<longrightarrow>
         handleFix os gofmt h info w = WriteFile os (FileInfo.Name info) newSrc 0 w1)
   \<and> (fst (handleFix os gofmt h info w) = None \<longrightarrow>
        (\<exists>old src w1 newSrc.
            files w (FileInfo.Name info) = Some old \<and>
            readFile os (FileInfo.Name info) w = (Inr src, w1) \<and>
            gofmt (mem w1) (AST info) (fileSet h) = Inr newSrc \<and>
            files (snd (handleFix os gofmt h info w)) =
              (files w)(FileInfo.Name info \<mapsto> \<lparr>mode = mode old, content = newSrc\<rparr>)))"
proof -
  obtain rr w1 where R: "readFile os (FileInfo.Name info) w = (rr, w1)"
    by (cases "readFile os (FileInfo.Name info) w")
  with readFile_files[of os "FileInfo.Name info" w] have f1: "files w1 = files w" by simp
  show ?thesis
  proof (cases rr)
    case (Inl e)
    with R f1 show ?thesis by (simp add: handleFix_def)
  next
    case (Inr src)
    with R readFile_Inr[of os "FileInfo.Name info" w src w1]
    obtain old where old: "files w (FileInfo.Name info) = Some old" by auto
    show ?thesis
    proof (cases "gofmt (mem w1) (AST info) (fileSet h)")
      case (Inl e)
      with R Inr f1 old show ?thesis by (simp add: handleFix_def)
    next
      case newSrc: (Inr newSrc)
      from R Inr newSrc assms
      have H: "handleFix os gofmt h info w = WriteFile os (FileInfo.Name info) newSrc 0 w1"
        by (simp add: handleFix_def)
      have "files (snd (handleFix os gofmt h info w)) =
              (files w)(FileInfo.Name info \<mapsto> \<lparr>mode = mode old, content = newSrc\<rparr>)"
        if "fst (handleFix os gofmt h info w) = None"
      proof -
        from that H have "WriteFile os (FileInfo.Name info) newSrc 0 w1 =
            (None, snd (handleFix os gofmt h info w))"
          by (simp add: prod_eq_iff)
        from WriteFile_existing[OF _ this, of old] old f1
        have "files (snd (handleFix os gofmt h info w)) =
                (files w)(FileInfo.Name info \<mapsto> old\<lparr>content := newSrc\<rparr>)"
          by simp
        then show ?thesis by (simp only: osfile_content_update)
      qed
      then have "fst (handleFix os gofmt h info w) = None \<longrightarrow>
        (\<exists>old src w1 newSrc.
            files w (FileInfo.Name info) = Some old \<and>
            readFile os (FileInfo.Name info) w = (Inr src, w1) \<and>
            gofmt (mem w1) (AST info) (fileSet h) = Inr newSrc \<and>
            files (snd (handleFix os gofmt h info w)) =
              (files w)(FileInfo.Name info \<mapsto> \<lparr>mode = mode old, content = newSrc\<rparr>))"
        using R Inr newSrc old by blast
      moreover have "files w (FileInfo.Name info) \<noteq> None" using old by simp
      moreover have "\<forall>src' w1' newSrc'.
         readFile os (FileInfo.Name info) w = (Inr src', w1') \<and>
         gofmt (mem w1') (AST info) (fileSet h) = Inr newSrc' \<longrightarrow>
         handleFix os gofmt h info w = WriteFile os (FileInfo.Name info) newSrc' 0 w1'"
        using R Inr newSrc H by auto
      ultimately show ?thesis by blast
    qed
  qed
qed


text \<open>
  C10.  In write mode, when the read and the rendering succeed, the handler is the call
  \<^verbatim>\<open>WriteFile(path, newSrc, 0)\<close>: the bytes are written to the original path with the
  permission argument 0.  When that call succeeds on a file that exists, the file keeps
  the mode it had and holds the new bytes; when it succeeds on a path that does not
  exist, the file is created with mode 0 (no permission bit set, whatever the umask).
  In the handler the first is what happens when it succeeds, since the file has just been
  read; a path that is absent when the handler starts fails on the read and is not
  created.
\<close>

theorem handleFix_write_mode:
  fixes os :: "'x opsys"
  assumes "\<not> doDiff h"
  shows "(\<forall>src w1 newSrc.
         readFile os (FileInfo.Name info) w = (Inr src, w1) \<and>
         gofmt (mem w1) (AST info) (fileSet h) = Inr newSrc \<longrightarrow>
         handleFix os gofmt h info w = WriteFile os (FileInfo.Name info) newSrc 0 w1)
   \<and> (\<forall>v v' p data old. files v p = Some old \<and> WriteFile os p data 0 v = (None, v') \<longrightarrow>
        files v' = (files v)(p \<mapsto> \<lparr>mode = mode old, content = data\<rparr>))
   \<and> (\<forall>v v' p data. files v p = None \<and> WriteFile os p data 0 v = (None, v') \<longrightarrow>
        files v' = (files v)(p \<mapsto> \<lparr>mode = 0, content = data\<rparr>))
   \<and> (fst (handleFix os gofmt h info w) = None \<longrightarrow>
        (\<exists>old src w1 newSrc.
            files w (FileInfo.Name info) = Some old \<and>
            readFile os (FileInfo.Name info) w = (Inr src, w1) \<and>
            gofmt (mem w1) (AST info) (fileSet h) = Inr newSrc \<and>
            files (snd (handleFix os gofmt h info w)) =
              (files w)(FileInfo.Name info \<mapsto> \<lparr>mode = mode old, content = newSrc\<rparr>)))
   \<and> (files w (FileInfo.Name info) = None \<longrightarrow>
            fst (handleFix os gofmt h info w) \<noteq> None \<and>
            files (snd (handleFix os gofmt h info w)) = files w)"
proof -
  have created: "files v' = (files v)(p \<mapsto> \<lparr>mode = 0, content = data\<rparr>)"
    if "files v p = None" "WriteFile os p data 0 v = (None, v')" for v v' :: "'x world" and p data
    using WriteFile_created[OF that] by simp
  have existing: "files v' = (files v)(p \<mapsto> \<lparr>mode = mode old, content = data\<rparr>)"
    if "files v p = Some old" "WriteFile os p data 0 v = (None, v')"
    for v v' :: "'x world" and p data old
    using WriteFile_existing[OF that] by (simp only: osfile_content_update)
  note H = handleFix_write_cases[OF assms, of w info os gofmt]
  show ?thesis
  proof (intro conjI)
    show "\<forall>src w1 newSrc.
         readFile os (FileInfo.Name info) w = (Inr src, w1) \<and>
         gofmt (mem w1) (AST info) (fileSet h) = Inr newSrc \<longrightarrow>
         handleFix os gofmt h info w = WriteFile os (FileInfo.Name info) newSrc 0 w1"
      using H by (elim conjE) assumption
    show "\<forall>v v' p data old. files v p = Some old \<and> WriteFile os p data 0 v = (None, v') \<longrightarrow>
        files v' = (files v)(p \<mapsto> \<lparr>mode = mode old, content = data\<rparr>)"
      using existing by (intro allI impI) (elim conjE)
    show "\<forall>v v' p data. files v p = None \<and> WriteFile os p data 0 v = (None, v') \<longrightarrow>
        files v' = (files v)(p \<mapsto> \<lparr>mode = 0, content = data\<rparr>)"
      using created by (intro allI impI) (elim conjE)
    show "fst (handleFix os gofmt h info w) = None \<longrightarrow>
        (\<exists>old src w1 newSrc.
            files w (FileInfo.Name info) = Some old \<and>
            readFile os (FileInfo.Name info) w = (Inr src, w1) \<and>
            gofmt (mem w1) (AST info) (fileSet h) = Inr newSrc \<and>
            files (snd (handleFix os gofmt h info w)) =
              (files w)(FileInfo.Name info \<mapsto> \<lparr>mode = mode old, content = newSrc\<rparr>))"
      using H by (elim conjE) assumption
    show "files w (FileInfo.Name info) = None \<longrightarrow>
            fst (handleFix os gofmt h info w) \<noteq> None \<and>
            files (snd (handleFix os gofmt h info w)) = files w"
      using H by (elim conjE) assumption
  qed
qed

lemma WriteFile_os_ok_missing:
  "fst (WriteFile os_ok ''/src/b.go'' ''new'' 0 w_init) = None"
  by (simp add: WriteFile_def temp_defs fixture_defs)

theorem handleFix_write_mode_witness:
  "\<not> doDiff h_write
   \<and> fst (handleFix os_ok gofmt_text h_write info_a w_init) = None
   \<and> files w_init ''/src/a.go'' = Some \<lparr>mode = 420, content = ''old''\<rparr>
   \<and> files (snd (handleFix os_ok gofmt_text h_write info_a w_init)) =
        (files w_init)(''/src/a.go'' \<mapsto> \<lparr>mode = 420, content = ''new''\<rparr>)
   \<and> files w_init ''/src/b.go'' = None
   \<and> files (snd (WriteFile os_ok ''/src/b.go'' ''new'' 0 w_init)) =
        (files w_init)(''/src/b.go'' \<mapsto> \<lparr>mode = 0, content = ''new''\<rparr>)"
proof -
  have d: "\<not> doDiff h_write" by (simp add: h_write_def)
  have n: "FileInfo.Name info_a = ''/src/a.go''" "AST info_a = ''new''"
    by (simp_all add: info_a_def)
  have f: "files w_init ''/src/a.go'' = Some \<lparr>mode = 420, content = ''old''\<rparr>"
    "files w_init ''/src/b.go'' = None"
    by (simp_all add: w_init_def)
  note T = handleFix_write_mode[OF d, where info = info_a and w = w_init and os = os_ok
      and gofmt = gofmt_text]
  have c: "WriteFile os_ok ''/src/b.go'' ''new'' 0 w_init =
             (None, snd (WriteFile os_ok ''/src/b.go'' ''new'' 0 w_init))"
    using WriteFile_os_ok_missing by (simp add: prod_eq_iff)
  from T[THEN conjunct2, THEN conjunct2, THEN conjunct1, rule_format, OF conjI, OF f(2) c]
  have created: "files (snd (WriteFile os_ok ''/src/b.go'' ''new'' 0 w_init)) =
        (files w_init)(''/src/b.go'' \<mapsto> \<lparr>mode = 0, content = ''new''\<rparr>)" .
  from T[THEN conjunct2, THEN conjunct2, THEN conjunct2, THEN conjunct1, rule_format,
      OF handleFix_write_os_ok(1)] n f
  have "files (snd (handleFix os_ok gofmt_text h_write info_a w_init)) =
        (files w_init)(''/src/a.go'' \<mapsto> \<lparr>mode = 420, content = ''new''\<rparr>)"
    by (auto simp: gofmt_text_def)
  with created show ?thesis using d f handleFix_write_os_ok(1) by simp
qed

text \<open>A path that is not on the disk: the handler fails on the read and creates nothing.\<close>

lemma handleFix_write_missing_target:
  "\<not> doDiff h_write \<and> files w_init (FileInfo.Name info_missing) = None
   \<and> fst (handleFix os_ok gofmt_text h_write info_missing w_init) =
        Some ''open /src/b.go: no such file or directory''
   \<and> files (snd (handleFix os_ok gofmt_text h_write info_missing w_init))
        (FileInfo.Name info_missing) = None"
proof -
  have a: "\<not> doDiff h_write" "FileInfo.Name info_missing = ''/src/b.go''"
    "files w_init ''/src/b.go'' = None"
    by (simp_all add: h_write_def info_missing_def w_init_def)
  show ?thesis using a handleFix_write_missing by simp
qed

theorem handleFix_diff_output_witness:
  "doDiff h_diff
   \<and> fst (handleFix os_no_diff gofmt_text h_diff info_a w_init) \<noteq> None
   \<and> stdout (snd (handleFix os_no_diff gofmt_text h_diff info_a w_init)) = stdout w_init
   \<and> plain_path ''pkg/a.go'' \<and> Join [''fixed'', ''pkg/a.go''] = ''fixed/pkg/a.go''"
proof -
  have d: "doDiff h_diff" by (simp add: h_diff_def)
  have p: "plain_path ''pkg/a.go''" by (simp add: plain_path_def Let_def)
  from handleFix_diff_output[OF d, of os_no_diff gofmt_text info_a w_init] handleFix_diff_os_no_diff
  have "stdout (snd (handleFix os_no_diff gofmt_text h_diff info_a w_init)) = stdout w_init"
    by simp
  moreover from handleFix_diff_output[OF d, of os_ok gofmt_text "\<lparr>FileInfo.Name = ''pkg/a.go'', AST = ''new''\<rparr>" w_init] p
  have "Join [''fixed'', ''pkg/a.go''] = ''fixed/pkg/a.go''" by simp
  ultimately show ?thesis using d p handleFix_diff_os_no_diff by simp
qed

subsection \<open>The driver\<close>

lemma main_loop_append:
  "main_loop ex fixer (xs @ ys) w =
     (case main_loop ex fixer xs w of Inl x \<Rightarrow> Inl x | Inr w' \<Rightarrow> main_loop ex fixer ys w')"
  by (induction xs arbitrary: w) (auto simp: Let_def split: prod.splits option.splits)

lemma main_loop_import_fails:
  assumes "main_loop ex fixer pre w = Inr wk" and "Import ex a wk = (Some e, wi)"
  shows "main_loop ex fixer (pre @ a # post) w =
           Inl (1, log_Error ex e ''unable to import package from argument'' [(''path'', a)]
                     wi)"
  using assms by (simp add: main_loop_append)

lemma main_loop_fix_fails:
  assumes "main_loop ex fixer pre w = Inr wk" and "Import ex a wk = (None, wi)"
    and "FixPackage ex fixer (PackageInfoFor ex (mem wi) a)
           (log_Info ex 1 ''fixing package'' [(''package'', ImportPath ex (PackageInfoFor ex (mem wi) a))]
              wi) = (Some e, w3)"
  shows "main_loop ex fixer (pre @ a # post) w =
           Inl (5, Stderr_Write (''aborting package '' @ Quote ex a @ '': '' @ e @ ''\<newline>'') w3)"
  using assms by (simp add: main_loop_append Let_def)

lemma fold_Stderr_Write:
  "fold (\<lambda>f. Stderr_Write (g f)) fs w = Stderr_Write (concat (map g fs)) w"
  by (induction fs arbitrary: w) (simp_all add: Stderr_Write_def)

lemma Stderr_Write_twice: "Stderr_Write b (Stderr_Write a w) = Stderr_Write (a @ b) w"
  by (simp add: Stderr_Write_def)

lemma usage_exits:
  "usage ex (allFixes, w) =
     Inl (93, (sort_key Fix.Name allFixes, Stderr_Write (usage_text ex allFixes) w))"
  by (simp add: usage_def usage_text_def Let_def fold_Stderr_Write Stderr_Write_twice)


lemma main_with_args:
  assumes "args \<noteq> []" and "os_getwd os w = Inr cwd"
    and "w1 = NewImporter ex cwd (tick w)"
    and "fixer = \<lparr>Fixes = allFixes,
                  HandleFix = handleFix os (GofmtFile ex)
                                \<lparr>fileSet = FileSet ex (mem w1), doDiff = d\<rparr>\<rparr>"
  shows "main os ex (Parsed d args) (allFixes, w) =
           (case main_loop ex fixer args w1 of
              Inl (code, w2) \<Rightarrow> (code, (allFixes, w2))
            | Inr w2 \<Rightarrow> (0, (allFixes, w2)))"
  using assms by (simp add: main_def flag_Parse_def Let_def)



lemma log_Error_engine: "log_Error (ex\<lparr>FixPackage := E\<rparr>) = log_Error ex"
  by (intro ext) (simp add: log_Error_def)

lemma log_Info_engine: "log_Info (ex\<lparr>FixPackage := E\<rparr>) = log_Info ex"
  by (intro ext) (simp add: log_Info_def)

lemma main_loop_engine:
  assumes "\<And>p v. E fixer p v = FixPackage ex fixer p v"
  shows "main_loop (ex\<lparr>FixPackage := E\<rparr>) fixer args w = main_loop ex fixer args w"
  using assms
  by (induction args arbitrary: w)
    (simp_all add: Let_def log_Error_engine log_Info_engine split: prod.splits option.splits)

lemma usage_entry_engine: "usage_entry (ex\<lparr>FixPackage := E\<rparr>) = usage_entry ex"
  by (rule ext) (simp add: usage_entry_def)

lemma usage_text_engine: "usage_text (ex\<lparr>FixPackage := E\<rparr>) fs = usage_text ex fs"
  by (simp add: usage_text_def usage_entry_engine)

lemma main_engine_fixes:
  "main os ex cl (allFixes, w) =
   main os (ex\<lparr>FixPackage := (\<lambda>fx. FixPackage ex (fx\<lparr>Fixes := allFixes\<rparr>))\<rparr>) cl (allFixes, w)"
proof (cases cl)
  case (Rejected msg)
  then show ?thesis by (simp add: main_def flag_Parse_def usage_text_engine usage_exits)
next
  case (Parsed d args)
  show ?thesis
  proof (cases "args = []")
    case True
    with Parsed show ?thesis by (simp add: main_def flag_Parse_def usage_text_engine usage_exits)
  next
    case False
    show ?thesis
    proof (cases "os_getwd os w")
      case (Inl e)
      with Parsed False show ?thesis by (simp add: main_def flag_Parse_def log_Error_engine)
    next
      case (Inr cwd)
      with Parsed False show ?thesis
        by (simp add: main_def flag_Parse_def Let_def main_loop_engine)
    qed
  qed
qed

lemma main_keeps_allFixes:
  "fst (main os ex cl (allFixes, w)) \<noteq> 93 \<Longrightarrow> fst (snd (main os ex cl (allFixes, w))) = allFixes"
  by (cases cl)
    (auto simp: main_def flag_Parse_def usage_exits Let_def split: sum.splits prod.splits if_splits)

lemma apply_fixes_append:
  "apply_fixes cap (fs1 @ fs2) t =
     (case apply_fixes cap fs1 t of Inl e \<Rightarrow> Inl e | Inr t' \<Rightarrow> apply_fixes cap fs2 t')"
  by (induction fs1 arbitrary: t) (simp_all split: sum.splits)

text \<open>
  C2.  The engine is only ever called with the list \<^verbatim>\<open>allFixes\<close> as it was supplied:
  the run is the same when every call of the engine is made to take that list.  The list
  is sorted by name in \<open>usage\<close> alone, which ends the process with 93; in every other
  run the package variable ends as it began.  And the engine of the spec applies the
  fixes it is given from first to last: applying \<open>fs1 @ fs2\<close> is applying \<open>fs1\<close> and
  then \<open>fs2\<close> to the result.
\<close>

theorem fixes_applied_in_given_order:
  "main os ex cl (allFixes, w) =
     main os (ex\<lparr>FixPackage := (\<lambda>fx. FixPackage ex (fx\<lparr>Fixes := allFixes\<rparr>))\<rparr>) cl (allFixes, w)
   \<and> (fst (main os ex cl (allFixes, w)) \<noteq> 93 \<longrightarrow>
        fst (snd (main os ex cl (allFixes, w))) = allFixes)
   \<and> usage ex (allFixes, w) =
        Inl (93, (sort_key Fix.Name allFixes, Stderr_Write (usage_text ex allFixes) w))
   \<and> apply_fixes cap (fs1 @ fs2) t =
        (case apply_fixes cap fs1 t of Inl e \<Rightarrow> Inl e | Inr t' \<Rightarrow> apply_fixes cap fs2 t')"
  using main_engine_fixes[of os ex cl allFixes w] main_keeps_allFixes[of os ex cl allFixes w]
    usage_exits[of ex allFixes w] apply_fixes_append[of cap fs1 fs2 t]
  by blast

text \<open>
  C7.  The loop takes the arguments in their order: running it on \<open>xs @ ys\<close> is
  running it on \<open>xs\<close> and, when that did not exit, on \<open>ys\<close> from the world it left.
  Once the arguments \<open>pre\<close> have gone through and the engine fails on the package of
  \<open>a\<close>, the process exits with 5 whatever arguments follow \<open>a\<close>: none of them is
  attempted.  The disk at the exit is the disk as the failed call of the engine left it,
  with everything written before: nothing is rolled back.
\<close>

theorem main_stops_at_first_failure:
  assumes "os_getwd os w = Inr cwd"
    and "w1 = NewImporter ex cwd (tick w)"
    and "fixer = \<lparr>Fixes = allFixes,
                  HandleFix = handleFix os (GofmtFile ex)
                                \<lparr>fileSet = FileSet ex (mem w1), doDiff = d\<rparr>\<rparr>"
    and "main_loop ex fixer pre w1 = Inr wk"
    and "Import ex a wk = (None, wi)"
    and "FixPackage ex fixer (PackageInfoFor ex (mem wi) a)
           (log_Info ex 1 ''fixing package'' [(''package'', ImportPath ex (PackageInfoFor ex (mem wi) a))]
              wi) = (Some e, w3)"
  shows "(\<forall>post. main os ex (Parsed d (pre @ a # post)) (allFixes, w) =
           (5, (allFixes,
                Stderr_Write (''aborting package '' @ Quote ex a @ '': '' @ e @ ''\<newline>'') w3)))
   \<and> files (Stderr_Write (''aborting package '' @ Quote ex a @ '': '' @ e @ ''\<newline>'') w3) =
        files w3
   \<and> (\<forall>xs ys v. main_loop ex fixer (xs @ ys) v =
         (case main_loop ex fixer xs v of Inl x \<Rightarrow> Inl x | Inr v' \<Rightarrow> main_loop ex fixer ys v'))"
proof -
  have "main os ex (Parsed d (pre @ a # post)) (allFixes, w) =
           (5, (allFixes,
                Stderr_Write (''aborting package '' @ Quote ex a @ '': '' @ e @ ''\<newline>'') w3))"
    for post
  proof -
    have ne: "pre @ a # post \<noteq> []" by simp
    show ?thesis
      using main_with_args[OF ne assms(1-3)] main_loop_fix_fails[OF assms(4-6), of post]
      by simp
  qed
  then show ?thesis by (simp add: main_loop_append Stderr_Write_def)
qed

text \<open>
  C6, as the code has it.  When the arguments \<open>pre\<close> have gone through and \<open>a\<close> does
  not resolve, the process hands the error with the path to the logger and exits with 1.
  For this argument the driver writes nothing itself and no handler runs: the disk at the
  exit is the disk that the failed resolution left, after the logger's sink has dealt
  with the entry.  So a path that the importer and the sink leave alone holds at the exit
  what it held when \<open>a\<close> was reached.  What was written for the arguments before \<open>a\<close>
  stays written.
\<close>

theorem unresolved_argument:
  assumes "os_getwd os w = Inr cwd"
    and "w1 = NewImporter ex cwd (tick w)"
    and "fixer = \<lparr>Fixes = allFixes,
                  HandleFix = handleFix os (GofmtFile ex)
                                \<lparr>fileSet = FileSet ex (mem w1), doDiff = d\<rparr>\<rparr>"
    and "main_loop ex fixer pre w1 = Inr wk"
    and "Import ex a wk = (Some e, wi)"
    and "entry = LogError e ''unable to import package from argument'' [(''path'', a)]"
  shows "\<exists>w'. main os ex (Parsed d (pre @ a # post)) (allFixes, w) = (1, (allFixes, w'))
           \<and> logged w' = logged wi @ [entry]
           \<and> files w' = files (LogSink ex entry wi)
           \<and> (\<forall>p. files wi p = files wk p \<and> files (LogSink ex entry wi) p = files wi p \<longrightarrow>
                  files w' p = files wk p)
           \<and> (pre = [] \<longrightarrow> wk = w1)"
proof -
  have ne: "pre @ a # post \<noteq> []" by simp
  let ?w' = "log_Error ex e ''unable to import package from argument'' [(''path'', a)] wi"
  have M: "main os ex (Parsed d (pre @ a # post)) (allFixes, w) = (1, (allFixes, ?w'))"
    using main_with_args[OF ne assms(1-3)] main_loop_import_fails[OF assms(4,5), of post]
    by simp
  have L: "logged ?w' = logged wi @ [entry]"
    by (simp add: log_Error_def assms(6))
  have F: "files ?w' = files (LogSink ex entry wi)"
    by (simp add: log_Error_def assms(6))
  have S: "pre = [] \<longrightarrow> wk = w1"
    using assms(4) by auto
  from M L F S show ?thesis by simp
qed


lemmas driver_defs = main_def flag_Parse_def handleFix_def readFile_def WriteFile_def diff_def
  temp_defs fixture_defs handler_fixture_defs ex_spec_def fix_xy_def fix_yz_def log_Info_def
  log_Error_def Stderr_Write_def Stdout_Write_def Let_def eval_nat_numeral

lemma run_good: "fst (main os_ok ex_spec (Parsed False [''good'']) ([fix_xy, fix_yz], w_init)) = 0"
  by (simp add: driver_defs)

lemma run_good_bad:
  "fst (main os_ok ex_spec (Parsed False [''good'', ''bad'']) ([fix_xy, fix_yz], w_init)) = 1"
  "files (snd (snd (main os_ok ex_spec (Parsed False [''good'', ''bad''])
                      ([fix_xy, fix_yz], w_init)))) ''/src/a.go'' =
     Some \<lparr>mode = 420, content = ''z''\<rparr>"
  "logged (snd (snd (main os_ok ex_spec (Parsed False [''good'', ''bad''])
                      ([fix_xy, fix_yz], w_init)))) =
     [LogInfo 1 ''fixing package'' [(''package'', ''example.com/pkg'')],
      LogError ''cannot find package'' ''unable to import package from argument''
        [(''path'', ''bad'')]]"
  by (simp_all add: driver_defs)

text \<open>The start of the loop in the small world, and the world after the argument \<^verbatim>\<open>good\<close>.\<close>

lemma run_getwd: "os_getwd os_ok w_init = Inr ''/src''"
  by (simp add: os_ok_def)

lemma run_loop_good:
  "main_loop ex_spec
     \<lparr>Fixes = [fix_xy, fix_yz],
      HandleFix = handleFix os_ok (GofmtFile ex_spec)
                    \<lparr>fileSet = FileSet ex_spec (mem (NewImporter ex_spec ''/src'' (tick w_init))),
                     doDiff = False\<rparr>\<rparr>
     [''good''] (NewImporter ex_spec ''/src'' (tick w_init)) =
   Inr \<lparr>files = [''/src/a.go'' \<mapsto> \<lparr>mode = 420, content = ''z''\<rparr>],
        stdout = [], stderr = [],
        logged = [LogInfo 1 ''fixing package'' [(''package'', ''example.com/pkg'')]],
        clock = 7, mem = ()\<rparr>"
  by (simp add: driver_defs)



lemma run_import_bad: "Import ex_spec ''bad'' v = (Some ''cannot find package'', v)"
  by (simp add: ex_spec_def)

lemma run_import_broken: "Import ex_spec ''broken'' v = (None, v)"
  by (simp add: ex_spec_def)

lemma run_fix_broken:
  "FixPackage ex_spec
     \<lparr>Fixes = [fix_xy, fix_yz],
      HandleFix = handleFix os_ok (GofmtFile ex_spec)
                    \<lparr>fileSet = FileSet ex_spec (mem (NewImporter ex_spec ''/src'' (tick w_init))),
                     doDiff = False\<rparr>\<rparr>
     (PackageInfoFor ex_spec
        (mem \<lparr>files = [''/src/a.go'' \<mapsto> \<lparr>mode = 420, content = ''z''\<rparr>],
          stdout = [], stderr = [],
          logged = [LogInfo 1 ''fixing package'' [(''package'', ''example.com/pkg'')]],
          clock = 7, mem = ()\<rparr>) ''broken'')
     (log_Info ex_spec 1 ''fixing package''
        [(''package'', ImportPath ex_spec (PackageInfoFor ex_spec
        (mem \<lparr>files = [''/src/a.go'' \<mapsto> \<lparr>mode = 420, content = ''z''\<rparr>],
          stdout = [], stderr = [],
          logged = [LogInfo 1 ''fixing package'' [(''package'', ''example.com/pkg'')]],
          clock = 7, mem = ()\<rparr>) ''broken''))]
        \<lparr>files = [''/src/a.go'' \<mapsto> \<lparr>mode = 420, content = ''z''\<rparr>],
          stdout = [], stderr = [],
          logged = [LogInfo 1 ''fixing package'' [(''package'', ''example.com/pkg'')]],
          clock = 7, mem = ()\<rparr>) =
   (Some ''open /src/b.go: no such file or directory'',
    \<lparr>files = [''/src/a.go'' \<mapsto> \<lparr>mode = 420, content = ''z''\<rparr>],
     stdout = [], stderr = [],
     logged = [LogInfo 1 ''fixing package'' [(''package'', ''example.com/pkg'')],
               LogInfo 1 ''fixing package'' [(''package'', ''example.com/pkg'')]],
     clock = 8, mem = ()\<rparr>)"
  by (simp add: driver_defs)

theorem fixes_applied_in_given_order_witness:
  "map Fix.Name [fix_xy, fix_yz] = [''b'', ''a'']
   \<and> map Fix.Name (sort_key Fix.Name [fix_xy, fix_yz]) = [''a'', ''b'']
   \<and> fst (main os_ok ex_spec (Parsed False [''good'']) ([fix_xy, fix_yz], w_init)) = 0
   \<and> fst (snd (main os_ok ex_spec (Parsed False [''good'']) ([fix_xy, fix_yz], w_init))) =
        [fix_xy, fix_yz]
   \<and> apply_fixes 10 [fix_xy, fix_yz] ''x'' = Inr ''z''
   \<and> apply_fixes 10 (sort_key Fix.Name [fix_xy, fix_yz]) ''x'' = Inr ''y''"
proof -
  have n: "map Fix.Name [fix_xy, fix_yz] = [''b'', ''a'']"
    "map Fix.Name (sort_key Fix.Name [fix_xy, fix_yz]) = [''a'', ''b'']"
    by (simp_all add: fix_xy_def fix_yz_def)
  have a: "apply_fixes 10 [fix_xy] ''x'' = Inr ''y''" "apply_fixes 10 [fix_yz] ''y'' = Inr ''z''"
    "apply_fixes 10 (sort_key Fix.Name [fix_xy, fix_yz]) ''x'' = Inr ''y''"
    by (simp_all add: fix_xy_def fix_yz_def eval_nat_numeral)
  note T = fixes_applied_in_given_order[of os_ok ex_spec "Parsed False [''good'']"
      "[fix_xy, fix_yz]" w_init 10 "[fix_xy]" "[fix_yz]" "''x''"]
  from T[THEN conjunct2, THEN conjunct2, THEN conjunct2]
  have z: "apply_fixes 10 [fix_xy, fix_yz] ''x'' = Inr ''z''"
    by (simp only: a sum.case append.simps)
  from T[THEN conjunct2, THEN conjunct1] run_good
  have "fst (snd (main os_ok ex_spec (Parsed False [''good'']) ([fix_xy, fix_yz], w_init))) =
        [fix_xy, fix_yz]" by simp
  with z show ?thesis using n a run_good by simp
qed

theorem main_stops_at_first_failure_witness:
  "fst (main os_ok ex_spec (Parsed False [''good'', ''broken'', ''good''])
          ([fix_xy, fix_yz], w_init)) = 5
   \<and> files (snd (snd (main os_ok ex_spec (Parsed False [''good'', ''broken'', ''good''])
                         ([fix_xy, fix_yz], w_init)))) ''/src/a.go'' =
        Some \<lparr>mode = 420, content = ''z''\<rparr>
   \<and> stderr (snd (snd (main os_ok ex_spec (Parsed False [''good'', ''broken'', ''good''])
                         ([fix_xy, fix_yz], w_init)))) =
        ''aborting package '' @ [CHR 0x22] @ ''broken'' @ [CHR 0x22] @
        '': open /src/b.go: no such file or directory\<newline>''
   \<and> main os_ok ex_spec (Parsed False [''good'', ''broken'', ''good'']) ([fix_xy, fix_yz], w_init) =
     main os_ok ex_spec (Parsed False [''good'', ''broken'']) ([fix_xy, fix_yz], w_init)"
proof -
  note T = main_stops_at_first_failure[OF run_getwd refl refl run_loop_good
      run_import_broken run_fix_broken]
  have q: "Quote ex_spec ''broken'' = [CHR 0x22] @ ''broken'' @ [CHR 0x22]"
    by (simp add: ex_spec_def)
  from T have
    "main os_ok ex_spec (Parsed False ([''good''] @ ''broken'' # [''good''])) ([fix_xy, fix_yz], w_init) =
     main os_ok ex_spec (Parsed False ([''good''] @ ''broken'' # [])) ([fix_xy, fix_yz], w_init)"
    by (simp only:)
  moreover from T have
    "main os_ok ex_spec (Parsed False ([''good''] @ ''broken'' # [''good''])) ([fix_xy, fix_yz], w_init) =
     (5, ([fix_xy, fix_yz],
          Stderr_Write (''aborting package '' @ Quote ex_spec ''broken'' @ '': '' @
                        ''open /src/b.go: no such file or directory'' @ ''\<newline>'')
            \<lparr>files = [''/src/a.go'' \<mapsto> \<lparr>mode = 420, content = ''z''\<rparr>],
             stdout = [], stderr = [],
             logged = [LogInfo 1 ''fixing package'' [(''package'', ''example.com/pkg'')],
                       LogInfo 1 ''fixing package'' [(''package'', ''example.com/pkg'')]],
             clock = 8, mem = ()\<rparr>))"
    by blast
  ultimately show ?thesis by (simp add: q Stderr_Write_def)
qed

lemma run_NewImporter: "NewImporter ex_spec cwd v = v"
  by (simp add: ex_spec_def)

lemma run_LogSink_bad:
  "files (LogSink ex_spec
            (LogError ''cannot find package'' ''unable to import package from argument''
               [(''path'', ''bad'')]) v) =
     (files v)(''/tmp/kfix.ERROR'' \<mapsto>
        \<lparr>mode = 420,
         content = ''unable to import package from argument: cannot find package\<newline>''\<rparr>)"
  by (simp add: ex_spec_def)

theorem unresolved_argument_witness:
  "fst (main os_ok ex_spec (Parsed False [''good'', ''bad'']) ([fix_xy, fix_yz], w_init)) = 1
   \<and> files (snd (snd (main os_ok ex_spec (Parsed False [''good'', ''bad''])
                         ([fix_xy, fix_yz], w_init)))) =
        [''/src/a.go'' \<mapsto> \<lparr>mode = 420, content = ''z''\<rparr>,
         ''/tmp/kfix.ERROR'' \<mapsto>
           \<lparr>mode = 420,
            content = ''unable to import package from argument: cannot find package\<newline>''\<rparr>]
   \<and> fst (main os_ok ex_spec (Parsed False [''bad'', ''good'']) ([fix_xy, fix_yz], w_init)) = 1
   \<and> files (snd (snd (main os_ok ex_spec (Parsed False [''bad'', ''good''])
                         ([fix_xy, fix_yz], w_init)))) ''/src/a.go'' =
        files w_init ''/src/a.go''"
proof -
  from unresolved_argument[OF run_getwd refl refl run_loop_good run_import_bad refl, of "[]"]
  have 1: "fst (main os_ok ex_spec (Parsed False [''good'', ''bad'']) ([fix_xy, fix_yz], w_init)) = 1
   \<and> files (snd (snd (main os_ok ex_spec (Parsed False [''good'', ''bad''])
                         ([fix_xy, fix_yz], w_init)))) =
        [''/src/a.go'' \<mapsto> \<lparr>mode = 420, content = ''z''\<rparr>,
         ''/tmp/kfix.ERROR'' \<mapsto>
           \<lparr>mode = 420,
            content = ''unable to import package from argument: cannot find package\<newline>''\<rparr>]"
    by (auto simp: run_LogSink_bad)
  have l: "main_loop ex_spec
     \<lparr>Fixes = [fix_xy, fix_yz],
      HandleFix = handleFix os_ok (GofmtFile ex_spec)
                    \<lparr>fileSet = FileSet ex_spec (mem (NewImporter ex_spec ''/src'' (tick w_init))),
                     doDiff = False\<rparr>\<rparr>
     [] (NewImporter ex_spec ''/src'' (tick w_init)) =
     Inr (NewImporter ex_spec ''/src'' (tick w_init))"
    by simp
  from unresolved_argument[OF run_getwd refl refl l run_import_bad refl, of "[''good'']"]
  have 2: "fst (main os_ok ex_spec (Parsed False [''bad'', ''good'']) ([fix_xy, fix_yz], w_init)) = 1
   \<and> files (snd (snd (main os_ok ex_spec (Parsed False [''bad'', ''good''])
                         ([fix_xy, fix_yz], w_init)))) ''/src/a.go'' =
        files w_init ''/src/a.go''"
    by (auto simp: run_LogSink_bad run_NewImporter tick_def)
  from 1 2 show ?thesis by simp
qed

text \<open>
  The claim as it is written fails when a package before the unresolved argument was
  fixed in write mode: the process exits with 1 and reports the path, and the file of the
  first package has been rewritten.
\<close>

theorem unresolved_argument_counterexample:
  "fst (main os_ok ex_spec (Parsed False [''good'', ''bad'']) ([fix_xy, fix_yz], w_init)) = 1
   \<and> logged (snd (snd (main os_ok ex_spec (Parsed False [''good'', ''bad''])
                          ([fix_xy, fix_yz], w_init)))) =
       [LogInfo 1 ''fixing package'' [(''package'', ''example.com/pkg'')],
        LogError ''cannot find package'' ''unable to import package from argument''
          [(''path'', ''bad'')]]
   \<and> files w_init ''/src/a.go'' = Some \<lparr>mode = 420, content = ''old''\<rparr>
   \<and> files (snd (snd (main os_ok ex_spec (Parsed False [''good'', ''bad''])
                         ([fix_xy, fix_yz], w_init)))) ''/src/a.go'' =
       Some \<lparr>mode = 420, content = ''z''\<rparr>"
proof -
  have "files w_init ''/src/a.go'' = Some \<lparr>mode = 420, content = ''old''\<rparr>"
    by (simp add: w_init_def)
  with run_good_bad show ?thesis by simp
qed

end
